theory Spec2Isabelle
  imports Main "HOL-Library.Word"
begin

section \<open>Flash-backed log storage and runtime log level\<close>

text \<open>
  The module \<^verbatim>\<open>log_storage.c\<close> keeps one static instance \<^verbatim>\<open>prv_inst\<close> and drives
  collaborators that live outside the repository: the kernel mutex, the flash map, the flash
  circular buffer (FCB), the NVS file system and the log filter of the logging core.
  Each public function is embedded as a function on the instance state. The collaborators
  are parameters: a record of functions over an abstract device world \<open>'w\<close>. Every result
  below holds for all collaborators of that shape. The state carries, next to the fields
  of \<^verbatim>\<open>prv_inst\<close>, the world and the list of collaborator calls made so far, in order; the
  list is only written, never read, so it does not influence any result. The \<^verbatim>\<open>LOG_*\<close>
  diagnostics of the source are not part of the embedding.
\<close>

subsection \<open>Constants of errno.h and of the logging core\<close>

abbreviation (input) ENOENT :: int where "ENOENT \<equiv> 2"
abbreviation (input) EIO :: int where "EIO \<equiv> 5"
abbreviation (input) E2BIG :: int where "E2BIG \<equiv> 7"
abbreviation (input) EAGAIN :: int where "EAGAIN \<equiv> 11"
abbreviation (input) EBUSY :: int where "EBUSY \<equiv> 16"
abbreviation (input) EINVAL :: int where "EINVAL \<equiv> 22"
abbreviation (input) ENOSPC :: int where "ENOSPC \<equiv> 28"

abbreviation (input) LOG_LEVEL_NONE :: int where "LOG_LEVEL_NONE \<equiv> 0"
abbreviation (input) LOG_LEVEL_ERR :: int where "LOG_LEVEL_ERR \<equiv> 1"
abbreviation (input) LOG_LEVEL_WRN :: int where "LOG_LEVEL_WRN \<equiv> 2"
abbreviation (input) LOG_LEVEL_INF :: int where "LOG_LEVEL_INF \<equiv> 3"
abbreviation (input) LOG_LEVEL_DBG :: int where "LOG_LEVEL_DBG \<equiv> 4"

abbreviation (input) LOG_STORAGE_FCB_MAGIC :: "32 word" where "LOG_STORAGE_FCB_MAGIC \<equiv> 0x1EE71065"

subsection \<open>Data\<close>

type_synonym byte = "8 word"

text \<open>A pointer to a flash area; \<open>None\<close> is the null pointer.\<close>

type_synonym flash_area = "nat option"

record flash_sector =
  fs_off :: nat
  fs_size :: nat

text \<open>
  An FCB entry descriptor. \<open>fe_sector\<close> is a pointer into the sector table (an index),
  \<open>None\<close> when null; \<open>fe_data_len\<close> is a \<^verbatim>\<open>uint16_t\<close>.
\<close>

record fcb_entry =
  fe_sector :: "nat option"
  fe_elem_off :: nat
  fe_data_off :: nat
  fe_data_len :: "16 word"

text \<open>The fields of \<^verbatim>\<open>struct fcb\<close> that \<^verbatim>\<open>zmod_log_storage_init\<close> fills in.\<close>

record fcb =
  f_magic :: "32 word"
  f_sector_cnt :: "8 word"
  f_scratch_cnt :: "8 word"

record zmod_log_storage_read_ctx_t =
  head :: fcb_entry
  read_bytes :: nat

text \<open>The collaborator calls, with the arguments the module passes.\<close>

datatype call =
    K_mutex_init
  | K_mutex_lock
  | K_mutex_unlock
  | Flash_area_open
  | Flash_area_close flash_area
  | Flash_area_sectors flash_area nat
  | Flash_area_write flash_area nat "byte list" nat
  | Flash_area_read flash_area nat nat
  | Fcb_init fcb
  | Fcb_append nat
  | Fcb_append_finish fcb_entry
  | Fcb_rotate
  | Fcb_clear
  | Fcb_getnext fcb_entry
  | Nvs_read nat nat
  | Nvs_write nat "byte list" nat
  | Log_src_cnt_get
  | Log_filter_set nat nat

text \<open>
  The collaborators. An out-parameter of the C prototype is a component of the result;
  an in-out parameter (the destination of a read, the entry descriptor handed to
  \<^verbatim>\<open>fcb_append\<close> and \<^verbatim>\<open>fcb_getnext\<close>) is both an argument and a component of the result.
  \<open>k_mutex_lock\<close> is the call with the module's fixed timeout of 200 ms.
  The length parameter of \<^verbatim>\<open>fcb_append\<close> is a \<^verbatim>\<open>uint16_t\<close>.
  \<open>fcb_entry_fa_data_off\<close> is the macro \<^verbatim>\<open>FCB_ENTRY_FA_DATA_OFF\<close> of the FCB header.
\<close>

record 'w env =
  k_mutex_init :: "'w \<Rightarrow> 'w"
  k_mutex_lock :: "'w \<Rightarrow> int \<times> 'w"
  k_mutex_unlock :: "'w \<Rightarrow> 'w"
  flash_area_open :: "'w \<Rightarrow> int \<times> flash_area \<times> 'w"
  flash_area_close :: "'w \<Rightarrow> flash_area \<Rightarrow> 'w"
  flash_area_sectors :: "'w \<Rightarrow> flash_area \<Rightarrow> nat \<Rightarrow> int \<times> nat \<times> flash_sector list \<times> 'w"
  flash_area_write :: "'w \<Rightarrow> flash_area \<Rightarrow> nat \<Rightarrow> byte list \<Rightarrow> nat \<Rightarrow> int \<times> 'w"
  flash_area_read :: "'w \<Rightarrow> flash_area \<Rightarrow> nat \<Rightarrow> byte list \<Rightarrow> nat \<Rightarrow> int \<times> byte list \<times> 'w"
  fcb_init :: "'w \<Rightarrow> fcb \<Rightarrow> int \<times> 'w"
  fcb_append :: "'w \<Rightarrow> nat \<Rightarrow> fcb_entry \<Rightarrow> int \<times> fcb_entry \<times> 'w"
  fcb_append_finish :: "'w \<Rightarrow> fcb_entry \<Rightarrow> int \<times> 'w"
  fcb_rotate :: "'w \<Rightarrow> int \<times> 'w"
  fcb_clear :: "'w \<Rightarrow> int \<times> 'w"
  fcb_getnext :: "'w \<Rightarrow> fcb_entry \<Rightarrow> int \<times> fcb_entry \<times> 'w"
  fcb_entry_fa_data_off :: "fcb_entry \<Rightarrow> nat"
  nvs_read :: "'w \<Rightarrow> nat \<Rightarrow> byte list \<Rightarrow> nat \<Rightarrow> int \<times> byte list \<times> 'w"
  nvs_write :: "'w \<Rightarrow> nat \<Rightarrow> byte list \<Rightarrow> nat \<Rightarrow> int \<times> 'w"
  log_src_cnt_get :: "'w \<Rightarrow> nat"
  log_filter_set :: "'w \<Rightarrow> nat \<Rightarrow> nat \<Rightarrow> nat \<times> 'w"

text \<open>
  The module state \<^verbatim>\<open>prv_log_storage_state_t\<close>. The mutex and the inner state of the FCB
  belong to the world. The field \<^verbatim>\<open>metadata\<close> of the source is never read or written by
  any function and is left out.
\<close>

record 'w prv_log_storage_state_t =
  fa :: flash_area
  fcb_inst :: fcb
  sectors :: "flash_sector list"
  read_head :: zmod_log_storage_read_ctx_t
  export_in_progress :: bool
  world :: 'w
  trace :: "call list"

text \<open>One collaborator call: the world it leaves and its entry in the call list.\<close>

definition ext :: "call \<Rightarrow> 'w \<Rightarrow> 'w prv_log_storage_state_t \<Rightarrow> 'w prv_log_storage_state_t" where
  "ext c w s = s\<lparr>world := w, trace := trace s @ [c]\<rparr>"

definition unlock :: "'w env \<Rightarrow> 'w prv_log_storage_state_t \<Rightarrow> 'w prv_log_storage_state_t" where
  "unlock env s = ext K_mutex_unlock (k_mutex_unlock env (world s)) s"

text \<open>\<^verbatim>\<open>struct fcb_entry loc = {0}\<close> and \<^verbatim>\<open>memset(&prv_inst.read_head, 0, ...)\<close>.\<close>

definition zero_entry :: fcb_entry where
  "zero_entry = \<lparr>fe_sector = None, fe_elem_off = 0, fe_data_off = 0, fe_data_len = 0\<rparr>"

definition zero_read_ctx :: zmod_log_storage_read_ctx_t where
  "zero_read_ctx = \<lparr>head = zero_entry, read_bytes = 0\<rparr>"

subsection \<open>Append\<close>

text \<open>
  Lines 205 to 222 of \<^verbatim>\<open>zmod_log_storage_add_data\<close>: the reservation, with one rotation
  and one retry when the sector is full. \<open>Inl\<close> is the early return taken when the rotation
  fails; \<open>Inr\<close> carries \<^verbatim>\<open>ret\<close> and \<^verbatim>\<open>loc\<close> to the rest of the function.
  \<^verbatim>\<open>buf_size\<close> is a \<^verbatim>\<open>size_t\<close> and the parameter of \<^verbatim>\<open>fcb_append\<close> a \<^verbatim>\<open>uint16_t\<close>: the
  call converts the size, so both reservations are made with \<open>buf_size mod 2 ^ 16\<close>,
  while the later write is made with the full size.
\<close>

definition add_data_reserve ::
  "'w env \<Rightarrow> 'w prv_log_storage_state_t \<Rightarrow> nat \<Rightarrow>
     (int \<times> 'w prv_log_storage_state_t) + (int \<times> fcb_entry \<times> 'w prv_log_storage_state_t)" where
  "add_data_reserve env s buf_size =
     (let len = buf_size mod 65536 in
      case fcb_append env (world s) len zero_entry of (ret, loc, w1) \<Rightarrow>
        let s1 = ext (Fcb_append len) w1 s in
        if ret = - ENOSPC then
          (case fcb_rotate env (world s1) of (ret, w2) \<Rightarrow>
             let s2 = ext Fcb_rotate w2 s1 in
             if ret < 0 then Inl (ret, unlock env s2)
             else
               (case fcb_append env (world s2) len loc of (ret, loc, w3) \<Rightarrow>
                  Inr (ret, loc, ext (Fcb_append len) w3 s2)))
        else Inr (ret, loc, s1))"

text \<open>Lines 224 to 254: the fail-safe clear, the write of the bytes and the finalisation.\<close>

definition add_data_commit ::
  "'w env \<Rightarrow> 'w prv_log_storage_state_t \<Rightarrow> int \<Rightarrow> fcb_entry \<Rightarrow> byte list \<Rightarrow> nat \<Rightarrow>
     int \<times> 'w prv_log_storage_state_t" where
  "add_data_commit env s ret loc buf buf_size =
     (if ret < 0 then
        (case fcb_clear env (world s) of (_, w1) \<Rightarrow>
           let s1 = ext Fcb_clear w1 s;
               s2 = s1\<lparr>read_head := zero_read_ctx\<rparr>
           in (ret, unlock env s2))
      else
        (case flash_area_write env (world s) (fa s) (fcb_entry_fa_data_off env loc) buf buf_size of
           (ret, w1) \<Rightarrow>
             let s1 = ext (Flash_area_write (fa s) (fcb_entry_fa_data_off env loc) buf buf_size) w1 s in
             if ret < 0 then (ret, unlock env s1)
             else
               (case fcb_append_finish env (world s1) loc of (ret, w2) \<Rightarrow>
                  let s2 = ext (Fcb_append_finish loc) w2 s1 in
                  if ret < 0 then (ret, unlock env s2)
                  else (0, unlock env s2))))"

text \<open>
  \<^verbatim>\<open>int zmod_log_storage_add_data(const void *buf, size_t buf_size)\<close>. The buffer is
  \<open>None\<close> when the pointer is null, otherwise the bytes it points to.
\<close>

definition zmod_log_storage_add_data ::
  "'w env \<Rightarrow> 'w prv_log_storage_state_t \<Rightarrow> byte list option \<Rightarrow> nat \<Rightarrow>
     int \<times> 'w prv_log_storage_state_t" where
  "zmod_log_storage_add_data env s buf buf_size =
     (case buf of
        None \<Rightarrow> (- EINVAL, s)
      | Some b \<Rightarrow>
          if buf_size = 0 then (0, s)
          else if export_in_progress s then (0, s)
          else
            (case k_mutex_lock env (world s) of (ret, w1) \<Rightarrow>
               let s1 = ext K_mutex_lock w1 s in
               if ret < 0 then (- EBUSY, s1)
               else
                 (case add_data_reserve env s1 buf_size of
                    Inl early \<Rightarrow> early
                  | Inr (ret, loc, s2) \<Rightarrow> add_data_commit env s2 ret loc b buf_size)))"

subsection \<open>Fetch, cursor reset, clear, export flag\<close>

text \<open>
  Lines 269 to 280 of \<^verbatim>\<open>zmod_log_storage_fetch_data\<close>: when the cursor has no entry or
  has delivered its entry completely, the delivered count is zeroed and the FCB is asked
  for the next entry. \<^verbatim>\<open>fcb_getnext\<close> works on \<^verbatim>\<open>prv_inst.read_head.head\<close> in place, so
  what it leaves in the descriptor is stored whatever it returns. \<open>ret\<close> is the value the
  variable holds on entry (the result of the lock).
\<close>

definition fetch_advance ::
  "'w env \<Rightarrow> 'w prv_log_storage_state_t \<Rightarrow> int \<Rightarrow> int \<times> 'w prv_log_storage_state_t" where
  "fetch_advance env s ret =
     (let ctx = read_head s; loc = head ctx in
      if fe_sector loc = None \<or> (fe_sector loc \<noteq> None \<and> read_bytes ctx = unat (fe_data_len loc)) then
        (let s1 = s\<lparr>read_head := ctx\<lparr>read_bytes := 0\<rparr>\<rparr> in
         case fcb_getnext env (world s1) loc of (ret, loc', w1) \<Rightarrow>
           (ret, ext (Fcb_getnext loc) w1 (s1\<lparr>read_head := (read_head s1)\<lparr>head := loc'\<rparr>\<rparr>)))
      else (ret, s))"

text \<open>
  Lines 282 to 285: \<^verbatim>\<open>uint16_t len = ctx->head.fe_data_len - ctx->read_bytes\<close>, capped by
  the capacity of the destination. The difference is computed in \<^verbatim>\<open>size_t\<close> and truncated
  to 16 bits; the width of \<^verbatim>\<open>size_t\<close> is a multiple of 16, so the result is the difference
  modulo \<open>2 ^ 16\<close>.
\<close>

definition fetch_len :: "zmod_log_storage_read_ctx_t \<Rightarrow> nat \<Rightarrow> nat" where
  "fetch_len ctx dest_size =
     (let len = nat ((int (unat (fe_data_len (head ctx))) - int (read_bytes ctx)) mod 65536)
      in if len > dest_size then dest_size else len)"

text \<open>
  \<^verbatim>\<open>int zmod_log_storage_fetch_data(void *dst, size_t dest_size, size_t *out_size)\<close>.
  \<open>dst\<close> is \<open>None\<close> for a null pointer, otherwise the content of the destination;
  \<open>out_size\<close> likewise. The result carries what both hold afterwards.
  \<open>read_bytes\<close> is a \<^verbatim>\<open>size_t\<close>; it stays at most \<open>fe_data_len\<close>
  (lemma \<open>fetch_keeps_cursor_inv\<close>), so its addition never wraps.
\<close>

definition zmod_log_storage_fetch_data ::
  "'w env \<Rightarrow> 'w prv_log_storage_state_t \<Rightarrow> byte list option \<Rightarrow> nat \<Rightarrow> nat option \<Rightarrow>
     int \<times> byte list option \<times> nat option \<times> 'w prv_log_storage_state_t" where
  "zmod_log_storage_fetch_data env s dst dest_size out_size =
     (case dst of
        None \<Rightarrow> (- EINVAL, dst, out_size, s)
      | Some d \<Rightarrow>
     (case out_size of
        None \<Rightarrow> (- EINVAL, dst, out_size, s)
      | Some out \<Rightarrow>
     (case k_mutex_lock env (world s) of (ret, w1) \<Rightarrow>
        let s1 = ext K_mutex_lock w1 s in
        if ret < 0 then (- EBUSY, dst, out_size, s1)
        else
          (case fetch_advance env s1 ret of (ret, s2) \<Rightarrow>
             if ret < 0 then (ret, dst, out_size, unlock env s2)
             else
               let ctx = read_head s2;
                   len = fetch_len ctx dest_size;
                   off = fcb_entry_fa_data_off env (head ctx) + read_bytes ctx
               in
                 (case flash_area_read env (world s2) (fa s2) off d len of (ret, d', w2) \<Rightarrow>
                    let s3 = ext (Flash_area_read (fa s2) off len) w2 s2 in
                    if ret < 0 then (- EIO, Some d', out_size, unlock env s3)
                    else
                      let s4 = s3\<lparr>read_head := ctx\<lparr>read_bytes := read_bytes ctx + len\<rparr>\<rparr>
                      in (ret, Some d', Some len, unlock env s4))))))"

definition zmod_log_storage_reset_read ::
  "'w prv_log_storage_state_t \<Rightarrow> 'w prv_log_storage_state_t" where
  "zmod_log_storage_reset_read s = s\<lparr>read_head := zero_read_ctx\<rparr>"

text \<open>\<^verbatim>\<open>int zmod_log_storage_clear(void)\<close>. The result of \<^verbatim>\<open>k_mutex_lock\<close> is discarded.\<close>

definition zmod_log_storage_clear ::
  "'w env \<Rightarrow> 'w prv_log_storage_state_t \<Rightarrow> int \<times> 'w prv_log_storage_state_t" where
  "zmod_log_storage_clear env s =
     (case k_mutex_lock env (world s) of (_, w1) \<Rightarrow>
        let s1 = ext K_mutex_lock w1 s in
        (case fcb_clear env (world s1) of (ret, w2) \<Rightarrow>
           let s2 = ext Fcb_clear w2 s1 in
           if ret < 0 then (ret, unlock env s2)
           else (0, unlock env (s2\<lparr>read_head := zero_read_ctx\<rparr>))))"

definition zmod_log_storage_set_export_in_progress ::
  "'w prv_log_storage_state_t \<Rightarrow> bool \<Rightarrow> 'w prv_log_storage_state_t" where
  "zmod_log_storage_set_export_in_progress s in_progress = s\<lparr>export_in_progress := in_progress\<rparr>"

subsection \<open>Initialisation\<close>

text \<open>\<^verbatim>\<open>flash_area_close(prv_inst.fa); prv_inst.fa = NULL;\<close>\<close>

definition close_fa :: "'w env \<Rightarrow> 'w prv_log_storage_state_t \<Rightarrow> 'w prv_log_storage_state_t" where
  "close_fa env s = (ext (Flash_area_close (fa s)) (flash_area_close env (world s) (fa s)) s)\<lparr>fa := None\<rparr>"

text \<open>
  \<^verbatim>\<open>int zmod_log_storage_init(void)\<close>. \<open>num_sectors\<close> is \<^verbatim>\<open>LOG_STORAGE_NUM_SECTORS\<close>, the
  length of the static sector table, fixed by the partition size of the build.
  \<^verbatim>\<open>flash_area_open\<close> receives the address of \<^verbatim>\<open>prv_inst.fa\<close>, so the handle field holds
  whatever the call leaves there.
\<close>

definition zmod_log_storage_init ::
  "'w env \<Rightarrow> nat \<Rightarrow> 'w prv_log_storage_state_t \<Rightarrow> int \<times> 'w prv_log_storage_state_t" where
  "zmod_log_storage_init env num_sectors s =
     (if fa s \<noteq> None then (0, s)
      else
        (case flash_area_open env (world s) of (ret, h, w1) \<Rightarrow>
           let s1 = (ext Flash_area_open w1 s)\<lparr>fa := h\<rparr> in
           if ret < 0 then (ret, s1)
           else
             (case flash_area_sectors env (world s1) (fa s1) num_sectors of
                (ret, sector_count, secs, w2) \<Rightarrow>
                  let s2 = (ext (Flash_area_sectors (fa s1) num_sectors) w2 s1)\<lparr>sectors := secs\<rparr> in
                  if ret < 0 then (ret, close_fa env s2)
                  else if sector_count > num_sectors then (- E2BIG, close_fa env s2)
                  else
                    let f = \<lparr>f_magic = LOG_STORAGE_FCB_MAGIC,
                             f_sector_cnt = of_nat sector_count,
                             f_scratch_cnt = 1\<rparr>;
                        s3 = s2\<lparr>fcb_inst := f\<rparr>
                    in
                      (case fcb_init env (world s3) f of (ret, w3) \<Rightarrow>
                         let s4 = ext (Fcb_init f) w3 s3 in
                         if ret < 0 then (ret, close_fa env s4)
                         else
                           let s5 = ext K_mutex_init (k_mutex_init env (world s4)) s4;
                               s6 = zmod_log_storage_reset_read s5;
                               s7 = s6\<lparr>export_in_progress := False\<rparr>
                           in (0, s7)))))"

subsection \<open>Configuration manager (config_mgr.c, configs.c)\<close>

record config_entry_t =
  human_readable_key :: string
  value_size_bytes :: nat
  default_value :: "byte list"
  resettable :: bool

text \<open>
  What the build fixes: the entry table generated from the application's definition file
  (its length is \<^verbatim>\<open>CFG_NUM_KEYS\<close>), the key \<^verbatim>\<open>CFG_LOG_LEVEL\<close>, the default level of the
  logging core and the floor \<^verbatim>\<open>CONFIG_ZMOD_LOG_STORAGE_MIN_RUNTIME_LEVEL\<close>.
\<close>

record config =
  prv_config_entries :: "config_entry_t list"
  CFG_LOG_LEVEL :: nat
  CONFIG_LOG_DEFAULT_LEVEL :: int
  LOG_RUNTIME_MIN_LEVEL :: int

definition zmod_configs_get_entry :: "config \<Rightarrow> nat \<Rightarrow> config_entry_t option" where
  "zmod_configs_get_entry cfg key =
     (if key \<ge> length (prv_config_entries cfg) then None
      else Some (prv_config_entries cfg ! key))"

text \<open>\<^verbatim>\<open>memcpy(dst, src, n)\<close> on buffer contents, for a source of \<open>n\<close> bytes.\<close>

definition overlay :: "byte list \<Rightarrow> byte list \<Rightarrow> byte list" where
  "overlay src dst = src @ drop (length src) dst"

text \<open>
  \<^verbatim>\<open>bool zmod_config_mgr_get_value(config_key_t key, void *dst, size_t size)\<close>.
  \<open>sz\<close> is the parameter \<^verbatim>\<open>size\<close>. The result is \<open>None\<close> when the \<^verbatim>\<open>__ASSERT\<close> on the size does not hold: the call is then outside the
  contract of the function and has no result here.
\<close>

definition zmod_config_mgr_get_value ::
  "'w env \<Rightarrow> config \<Rightarrow> 'w prv_log_storage_state_t \<Rightarrow> nat \<Rightarrow> byte list option \<Rightarrow> nat \<Rightarrow>
     (bool \<times> byte list option \<times> 'w prv_log_storage_state_t) option" where
  "zmod_config_mgr_get_value env cfg s key dst sz =
     (case dst of
        None \<Rightarrow> Some (False, dst, s)
      | Some d \<Rightarrow>
     (case zmod_configs_get_entry cfg key of
        None \<Rightarrow> Some (False, dst, s)
      | Some entry \<Rightarrow>
          if sz \<noteq> value_size_bytes entry then None
          else
            (case nvs_read env (world s) key d sz of (ret, d', w1) \<Rightarrow>
               let s1 = ext (Nvs_read key sz) w1 s in
               if ret = - ENOENT then
                 Some (True, Some (overlay (take (value_size_bytes entry) (default_value entry)) d'), s1)
               else if ret < 0 then Some (False, Some d', s1)
               else Some (True, Some d', s1))))"

text \<open>\<^verbatim>\<open>bool zmod_config_mgr_set_value(config_key_t key, const void *src, size_t size)\<close>.\<close>

definition zmod_config_mgr_set_value ::
  "'w env \<Rightarrow> config \<Rightarrow> 'w prv_log_storage_state_t \<Rightarrow> nat \<Rightarrow> byte list option \<Rightarrow> nat \<Rightarrow>
     (bool \<times> 'w prv_log_storage_state_t) option" where
  "zmod_config_mgr_set_value env cfg s key src sz =
     (case src of
        None \<Rightarrow> Some (False, s)
      | Some d \<Rightarrow>
     (case zmod_configs_get_entry cfg key of
        None \<Rightarrow> Some (False, s)
      | Some entry \<Rightarrow>
          if sz \<noteq> value_size_bytes entry then None
          else
            (case nvs_write env (world s) key d sz of (ret, w1) \<Rightarrow>
               let s1 = ext (Nvs_write key d sz) w1 s in
               if ret < 0 then Some (False, s1) else Some (True, s1))))"

subsection \<open>Runtime log level\<close>

text \<open>
  The loop over the log sources, \<open>source_id\<close> running through the list given. The first
  component counts the sources whose filter came back at the requested level
  (\<^verbatim>\<open>set_count\<close> of \<^verbatim>\<open>zmod_log_storage_init_log_level\<close>; \<^verbatim>\<open>zmod_log_storage_set_log_level\<close>
  runs the same loop without the count).
\<close>

primrec set_filters ::
  "'w env \<Rightarrow> nat \<Rightarrow> nat list \<Rightarrow> nat \<times> 'w prv_log_storage_state_t \<Rightarrow>
     nat \<times> 'w prv_log_storage_state_t" where
  "set_filters env log_level [] acc = acc"
| "set_filters env log_level (source_id # rest) acc =
     (case acc of (set_count, s) \<Rightarrow>
        (case log_filter_set env (world s) source_id log_level of (result_level, w1) \<Rightarrow>
           set_filters env log_level rest
             (if result_level = log_level then set_count + 1 else set_count,
              ext (Log_filter_set source_id log_level) w1 s)))"

text \<open>\<^verbatim>\<open>log_src_cnt_get\<close> followed by the loop.\<close>

definition apply_level ::
  "'w env \<Rightarrow> nat \<Rightarrow> 'w prv_log_storage_state_t \<Rightarrow> nat \<times> nat \<times> 'w prv_log_storage_state_t" where
  "apply_level env log_level s =
     (let source_count = log_src_cnt_get env (world s);
          s1 = ext Log_src_cnt_get (world s) s
      in case set_filters env log_level [0..<source_count] (0, s1) of
           (set_count, s2) \<Rightarrow> (set_count, source_count, s2))"

text \<open>
  Lines 332 to 346 of \<^verbatim>\<open>zmod_log_storage_init_log_level\<close>: the persisted level, or the
  default when it is absent, unreadable or out of range. \<open>log_level0\<close> is the content of the
  uninitialised local before the read.
\<close>

definition init_log_level_load ::
  "'w env \<Rightarrow> config \<Rightarrow> 'w prv_log_storage_state_t \<Rightarrow> byte \<Rightarrow>
     (byte \<times> 'w prv_log_storage_state_t) option" where
  "init_log_level_load env cfg s log_level0 =
     (case zmod_config_mgr_get_value env cfg s (CFG_LOG_LEVEL cfg) (Some [log_level0]) 1 of
        None \<Rightarrow> None
      | Some (ok, dst, s1) \<Rightarrow>
          let log_level = (case dst of Some (b # _) \<Rightarrow> b | _ \<Rightarrow> log_level0);
              use_default = (if ok then uint log_level > LOG_LEVEL_DBG else True)
          in
            if use_default then
              (let log_level = word_of_int (CONFIG_LOG_DEFAULT_LEVEL cfg) in
               case zmod_config_mgr_set_value env cfg s1 (CFG_LOG_LEVEL cfg) (Some [log_level]) 1 of
                 None \<Rightarrow> None
               | Some (_, s2) \<Rightarrow> Some (log_level, s2))
            else Some (log_level, s1))"

text \<open>Lines 348 to 352: the clamp to the floor, persisted when it changes the level.\<close>

definition init_log_level_clamp ::
  "'w env \<Rightarrow> config \<Rightarrow> 'w prv_log_storage_state_t \<Rightarrow> byte \<Rightarrow>
     (byte \<times> 'w prv_log_storage_state_t) option" where
  "init_log_level_clamp env cfg s log_level =
     (if uint log_level < LOG_RUNTIME_MIN_LEVEL cfg then
        (let log_level = word_of_int (LOG_RUNTIME_MIN_LEVEL cfg) in
         case zmod_config_mgr_set_value env cfg s (CFG_LOG_LEVEL cfg) (Some [log_level]) 1 of
           None \<Rightarrow> None
         | Some (_, s1) \<Rightarrow> Some (log_level, s1))
      else Some (log_level, s))"

text \<open>
  \<^verbatim>\<open>void zmod_log_storage_init_log_level(void)\<close>. Next to the state the result gives the
  three values of the closing report: the level, \<^verbatim>\<open>set_count\<close> and \<^verbatim>\<open>source_count\<close>.
\<close>

definition zmod_log_storage_init_log_level ::
  "'w env \<Rightarrow> config \<Rightarrow> 'w prv_log_storage_state_t \<Rightarrow> byte \<Rightarrow>
     ((byte \<times> nat \<times> nat) \<times> 'w prv_log_storage_state_t) option" where
  "zmod_log_storage_init_log_level env cfg s log_level0 =
     (case init_log_level_load env cfg s log_level0 of
        None \<Rightarrow> None
      | Some (log_level, s1) \<Rightarrow>
     (case init_log_level_clamp env cfg s1 log_level of
        None \<Rightarrow> None
      | Some (log_level, s2) \<Rightarrow>
     (case apply_level env (unat log_level) s2 of
        (set_count, source_count, s3) \<Rightarrow> Some ((log_level, set_count, source_count), s3))))"

text \<open>\<^verbatim>\<open>int zmod_log_storage_set_log_level(uint8_t level)\<close>.\<close>

definition clamp_level :: "config \<Rightarrow> byte \<Rightarrow> byte" where
  "clamp_level cfg level =
     (if uint level < LOG_RUNTIME_MIN_LEVEL cfg then word_of_int (LOG_RUNTIME_MIN_LEVEL cfg) else level)"

definition zmod_log_storage_set_log_level ::
  "'w env \<Rightarrow> config \<Rightarrow> 'w prv_log_storage_state_t \<Rightarrow> byte \<Rightarrow>
     (int \<times> 'w prv_log_storage_state_t) option" where
  "zmod_log_storage_set_log_level env cfg s level =
     (if uint level > LOG_LEVEL_DBG then Some (- EINVAL, s)
      else
        let clamped_level = clamp_level cfg level in
        (case apply_level env (unat clamped_level) s of (_, _, s1) \<Rightarrow>
           (case zmod_config_mgr_set_value env cfg s1 (CFG_LOG_LEVEL cfg) (Some [clamped_level]) 1 of
              None \<Rightarrow> None
            | Some (ok, s2) \<Rightarrow> if \<not> ok then Some (- EIO, s2) else Some (0, s2))))"

subsection \<open>A scripted device\<close>

text \<open>
  A device for concrete runs. Its world is the list of the return codes that the calls
  with a return code will give, in order; once the list is used up every call succeeds.
  A reservation places the entry at a fixed offset of sector 0; \<^verbatim>\<open>fcb_getnext\<close> steps to
  a following entry of three bytes and leaves the descriptor alone when it fails; a read
  delivers the letter A; a non-negative code of \<^verbatim>\<open>nvs_read\<close> is the byte stored under the
  key. There are three log sources and each accepts the level it is given.
\<close>

definition pop :: "int list \<Rightarrow> int \<times> int list" where
  "pop w = (case w of [] \<Rightarrow> (0, []) | r # rs \<Rightarrow> (r, rs))"

definition scripted :: "int list env" where
  "scripted =
     \<lparr>k_mutex_init = (\<lambda>w. w),
      k_mutex_lock = pop,
      k_mutex_unlock = (\<lambda>w. w),
      flash_area_open = (\<lambda>w. case pop w of (r, w') \<Rightarrow> (r, if r < 0 then None else Some 1, w')),
      flash_area_close = (\<lambda>w h. w),
      flash_area_sectors = (\<lambda>w h n. case pop w of (r, w') \<Rightarrow>
        (r, 4, map (\<lambda>i. \<lparr>fs_off = 4096 * i, fs_size = 4096\<rparr>) [0..<4], w')),
      flash_area_write = (\<lambda>w h off buf n. pop w),
      flash_area_read = (\<lambda>w h off dst n. case pop w of (r, w') \<Rightarrow>
        (r, if r < 0 then dst else overlay (replicate n 0x41) dst, w')),
      fcb_init = (\<lambda>w f. pop w),
      fcb_append = (\<lambda>w n loc. case pop w of (r, w') \<Rightarrow>
        (r, if r < 0 then loc
            else \<lparr>fe_sector = Some 0, fe_elem_off = 8, fe_data_off = 10, fe_data_len = of_nat n\<rparr>, w')),
      fcb_append_finish = (\<lambda>w loc. pop w),
      fcb_rotate = pop,
      fcb_clear = pop,
      fcb_getnext = (\<lambda>w loc. case pop w of (r, w') \<Rightarrow>
        (r, if r < 0 then loc
            else let e = (if fe_sector loc = None then 8 else fe_data_off loc + unat (fe_data_len loc) + 1)
                 in \<lparr>fe_sector = Some 0, fe_elem_off = e, fe_data_off = e + 2, fe_data_len = 3\<rparr>, w')),
      fcb_entry_fa_data_off = (\<lambda>e. (case fe_sector e of None \<Rightarrow> 0 | Some i \<Rightarrow> 4096 * i) + fe_data_off e),
      nvs_read = (\<lambda>w key dst n. case pop w of (r, w') \<Rightarrow>
        if r < 0 then (r, dst, w') else (int n, overlay (take n [word_of_int r]) dst, w')),
      nvs_write = (\<lambda>w key src n. case pop w of (r, w') \<Rightarrow> (if r < 0 then r else int n, w')),
      log_src_cnt_get = (\<lambda>w. 3),
      log_filter_set = (\<lambda>w source_id level. (level, w))\<rparr>"

text \<open>The instance before initialisation (static storage is zeroed), over a given world.\<close>

definition fresh :: "'w \<Rightarrow> 'w prv_log_storage_state_t" where
  "fresh w =
     \<lparr>fa = None,
      fcb_inst = \<lparr>f_magic = 0, f_sector_cnt = 0, f_scratch_cnt = 0\<rparr>,
      sectors = [],
      read_head = zero_read_ctx,
      export_in_progress = False,
      world = w,
      trace = []\<rparr>"

text \<open>
  An initialised instance whose cursor stands on a three-byte entry of which \<open>n\<close> bytes
  have been delivered.
\<close>

definition reading :: "nat \<Rightarrow> 'w \<Rightarrow> 'w prv_log_storage_state_t" where
  "reading n w =
     (fresh w)
       \<lparr>fa := Some 1,
        fcb_inst := \<lparr>f_magic = LOG_STORAGE_FCB_MAGIC, f_sector_cnt = 4, f_scratch_cnt = 1\<rparr>,
        sectors := map (\<lambda>i. \<lparr>fs_off = 4096 * i, fs_size = 4096\<rparr>) [0..<4],
        read_head := \<lparr>head = \<lparr>fe_sector = Some 0, fe_elem_off = 8, fe_data_off = 10, fe_data_len = 3\<rparr>,
                      read_bytes = n\<rparr>\<rparr>"

text \<open>
  A build in which the log level is key 0, one byte wide with default 3, the default level
  of the logging core is 3 and the floor is 1.
\<close>

definition sample_config :: config where
  "sample_config =
     \<lparr>prv_config_entries =
        [\<lparr>human_readable_key = ''CFG_LOG_LEVEL'', value_size_bytes = 1,
          default_value = [3], resettable = True\<rparr>],
      CFG_LOG_LEVEL = 0,
      CONFIG_LOG_DEFAULT_LEVEL = 3,
      LOG_RUNTIME_MIN_LEVEL = 1\<rparr>"


text \<open>The sample build with the default level of the logging core at 0 (off), below the floor.\<close>

definition low_default_config :: config where
  "low_default_config = sample_config\<lparr>CONFIG_LOG_DEFAULT_LEVEL := 0\<rparr>"

subsection \<open>Predicates used in the statements\<close>

text \<open>The cursor never claims more delivered bytes than its entry holds.\<close>

definition cursor_inv :: "'w prv_log_storage_state_t \<Rightarrow> bool" where
  "cursor_inv s = (read_bytes (read_head s) \<le> unat (fe_data_len (head (read_head s))))"

text \<open>The test of line 272: the cursor has no entry, or has delivered its entry completely.\<close>

definition needs_advance :: "'w prv_log_storage_state_t \<Rightarrow> bool" where
  "needs_advance s =
     (fe_sector (head (read_head s)) = None \<or>
      read_bytes (read_head s) = unat (fe_data_len (head (read_head s))))"

definition is_flash_read :: "call \<Rightarrow> bool" where
  "is_flash_read c = (case c of Flash_area_read _ _ _ \<Rightarrow> True | _ \<Rightarrow> False)"

text \<open>
  The log level key is a key of the entry table and its entry is one byte wide, as the
  \<^verbatim>\<open>uint8_t\<close> the module reads and writes under it.
\<close>

definition log_level_key_ok :: "config \<Rightarrow> bool" where
  "log_level_key_ok cfg =
     (CFG_LOG_LEVEL cfg < length (prv_config_entries cfg) \<and>
      value_size_bytes (prv_config_entries cfg ! CFG_LOG_LEVEL cfg) = 1)"

section \<open>Properties\<close>

subsection \<open>Auxiliary facts\<close>

lemmas run_defs =
  zmod_log_storage_add_data_def add_data_reserve_def add_data_commit_def
  zmod_log_storage_fetch_data_def fetch_advance_def fetch_len_def zmod_log_storage_clear_def
  zmod_log_storage_reset_read_def zmod_log_storage_init_def close_fa_def
  scripted_def pop_def reading_def fresh_def zero_read_ctx_def zero_entry_def
  ext_def unlock_def overlay_def Let_def

lemmas level_defs =
  zmod_log_storage_set_log_level_def zmod_log_storage_init_log_level_def
  init_log_level_load_def init_log_level_clamp_def apply_level_def clamp_level_def
  zmod_config_mgr_get_value_def zmod_config_mgr_set_value_def zmod_configs_get_entry_def
  sample_config_def log_level_key_ok_def

lemma upt3: "[0..<3] = [0, 1, 2]"
  by (simp add: numeral_3_eq_3)

lemma ext_simps [simp]:
  "fa (ext c w s) = fa s"
  "fcb_inst (ext c w s) = fcb_inst s"
  "sectors (ext c w s) = sectors s"
  "read_head (ext c w s) = read_head s"
  "export_in_progress (ext c w s) = export_in_progress s"
  "world (ext c w s) = w"
  "trace (ext c w s) = trace s @ [c]"
  by (simp_all add: ext_def)

lemma unlock_simps [simp]:
  "fa (unlock env s) = fa s"
  "fcb_inst (unlock env s) = fcb_inst s"
  "sectors (unlock env s) = sectors s"
  "read_head (unlock env s) = read_head s"
  "export_in_progress (unlock env s) = export_in_progress s"
  "world (unlock env s) = k_mutex_unlock env (world s)"
  "trace (unlock env s) = trace s @ [K_mutex_unlock]"
  by (simp_all add: unlock_def)

subsection \<open>Append: which failures clear the store\<close>

text \<open>
  The two halves of the append, told by what they leave alone: the reservation never
  touches the read cursor and rotates at most once; the rest never rotates and leaves
  the read cursor as it was or zeroed.
\<close>

lemma commit_rotations:
  "filter (\<lambda>c. c = Fcb_rotate) (trace (snd (add_data_commit env s ret loc b n)))
     = filter (\<lambda>c. c = Fcb_rotate) (trace s)"
  by (simp add: add_data_commit_def ext_def unlock_def Let_def split_beta)

lemma commit_read_head:
  "read_head (snd (add_data_commit env s ret loc b n)) = read_head s \<or>
   read_head (snd (add_data_commit env s ret loc b n)) = zero_read_ctx"
  by (simp add: add_data_commit_def ext_def unlock_def Let_def split_beta)

lemma reserve_rotations:
  "(case add_data_reserve env s n of
      Inl (r, s') \<Rightarrow>
        read_head s' = read_head s \<and>
        filter (\<lambda>c. c = Fcb_rotate) (trace s') = filter (\<lambda>c. c = Fcb_rotate) (trace s) @ [Fcb_rotate]
    | Inr (r, loc, s') \<Rightarrow>
        read_head s' = read_head s \<and>
        (filter (\<lambda>c. c = Fcb_rotate) (trace s') = filter (\<lambda>c. c = Fcb_rotate) (trace s) \<or>
         filter (\<lambda>c. c = Fcb_rotate) (trace s') = filter (\<lambda>c. c = Fcb_rotate) (trace s) @ [Fcb_rotate]))"
  by (simp add: add_data_reserve_def ext_def unlock_def Let_def split_beta)

text \<open>
  C1, amended. Take an append of a non-empty record outside an export, with the lock
  obtained, and name the results of the collaborator calls: \<open>r1\<close> for the first
  reservation, \<open>r2\<close> for the rotation, \<open>r3\<close> for the retry, \<open>r4\<close> for the write and
  \<open>r5\<close> for the finalisation. \<open>rr\<close> is the result of the reservation that counts: the
  retry when the first one returned \<open>- ENOSPC\<close>, the first one otherwise.
  \<^item> When the first reservation returns \<open>- ENOSPC\<close> and the rotation fails, the function
    unlocks and returns the error of the rotation; the read cursor is as before and
    \<^verbatim>\<open>fcb_clear\<close> is not called.
  \<^item> Otherwise, when \<open>rr\<close> is an error, the function calls \<^verbatim>\<open>fcb_clear\<close>, zeroes the read
    cursor, unlocks and returns \<open>rr\<close>.
  \<^item> Otherwise, when the write or the finalisation fails, the function unlocks and returns
    that error; the read cursor is as before and \<^verbatim>\<open>fcb_clear\<close> is not called.
  \<^item> Otherwise it unlocks and returns 0.
  In each case the equation gives the whole state after the call: the fields of the
  instance, the world the collaborators leave, and the calls made.
\<close>

theorem add_data_failure_handling:
  assumes "buf_size \<noteq> 0" and "\<not> export_in_progress s"
    and "k_mutex_lock env (world s) = (r0, w1)" and "0 \<le> r0"
    and "fcb_append env w1 (buf_size mod 65536) zero_entry = (r1, loc1, w2)"
    and "fcb_rotate env w2 = (r2, w3)"
    and "fcb_append env w3 (buf_size mod 65536) loc1 = (r3, loc2, w4)"
    and "(rr, loc, w, pre) =
           (if r1 = - ENOSPC
            then (r3, loc2, w4,
                  [K_mutex_lock, Fcb_append (buf_size mod 65536), Fcb_rotate,
                   Fcb_append (buf_size mod 65536)])
            else (r1, loc1, w2, [K_mutex_lock, Fcb_append (buf_size mod 65536)]))"
    and "flash_area_write env w (fa s) (fcb_entry_fa_data_off env loc) b buf_size = (r4, w5)"
    and "fcb_append_finish env w5 loc = (r5, w6)"
  shows "(r1 = - ENOSPC \<and> r2 < 0 \<longrightarrow>
            zmod_log_storage_add_data env s (Some b) buf_size
              = (r2, s\<lparr>world := k_mutex_unlock env w3,
                       trace := trace s @
                         [K_mutex_lock, Fcb_append (buf_size mod 65536), Fcb_rotate,
                          K_mutex_unlock]\<rparr>)) \<and>
         (\<not> (r1 = - ENOSPC \<and> r2 < 0) \<longrightarrow>
            (rr < 0 \<longrightarrow>
               zmod_log_storage_add_data env s (Some b) buf_size
                 = (rr, s\<lparr>read_head := zero_read_ctx,
                          world := k_mutex_unlock env (snd (fcb_clear env w)),
                          trace := trace s @ pre @ [Fcb_clear, K_mutex_unlock]\<rparr>)) \<and>
            (0 \<le> rr \<and> r4 < 0 \<longrightarrow>
               zmod_log_storage_add_data env s (Some b) buf_size
                 = (r4, s\<lparr>world := k_mutex_unlock env w5,
                          trace := trace s @ pre @
                            [Flash_area_write (fa s) (fcb_entry_fa_data_off env loc) b buf_size,
                             K_mutex_unlock]\<rparr>)) \<and>
            (0 \<le> rr \<and> 0 \<le> r4 \<and> r5 < 0 \<longrightarrow>
               zmod_log_storage_add_data env s (Some b) buf_size
                 = (r5, s\<lparr>world := k_mutex_unlock env w6,
                          trace := trace s @ pre @
                            [Flash_area_write (fa s) (fcb_entry_fa_data_off env loc) b buf_size,
                             Fcb_append_finish loc, K_mutex_unlock]\<rparr>)) \<and>
            (0 \<le> rr \<and> 0 \<le> r4 \<and> 0 \<le> r5 \<longrightarrow>
               zmod_log_storage_add_data env s (Some b) buf_size
                 = (0, s\<lparr>world := k_mutex_unlock env w6,
                         trace := trace s @ pre @
                           [Flash_area_write (fa s) (fcb_entry_fa_data_off env loc) b buf_size,
                            Fcb_append_finish loc, K_mutex_unlock]\<rparr>)))"
proof (cases "r1 = - ENOSPC")
  case True
  with assms(8) have sel: "rr = r3" "loc = loc2" "w = w4"
    "pre = [K_mutex_lock, Fcb_append (buf_size mod 65536), Fcb_rotate, Fcb_append (buf_size mod 65536)]"
    by simp_all
  show ?thesis
    using assms(1-7,9,10) True sel
    by (simp add: zmod_log_storage_add_data_def add_data_reserve_def add_data_commit_def
        ext_def unlock_def Let_def split_beta)
next
  case False
  with assms(8) have sel: "rr = r1" "loc = loc1" "w = w2"
    "pre = [K_mutex_lock, Fcb_append (buf_size mod 65536)]"
    by simp_all
  show ?thesis
    using assms(1-7,9,10) False sel
    by (simp add: zmod_log_storage_add_data_def add_data_reserve_def add_data_commit_def
        ext_def unlock_def Let_def split_beta)
qed

text \<open>
  The first reservation fails with \<open>- EINVAL\<close>, an error other than sector-full: the store
  is cleared without any rotation and the cursor zeroed.
\<close>

theorem add_data_failure_handling_witness:
  "(3::nat) \<noteq> 0 \<and> \<not> export_in_progress (reading 1 [0, - EINVAL]) \<and>
   k_mutex_lock scripted (world (reading 1 [0, - EINVAL])) = (0, [- EINVAL]) \<and>
   fcb_append scripted [- EINVAL] (3 mod 65536) zero_entry = (- EINVAL, zero_entry, []) \<and>
   zmod_log_storage_add_data scripted (reading 1 [0, - EINVAL]) (Some [0x41, 0x41, 0x41]) 3
     = (- EINVAL,
        (reading 1 [])
          \<lparr>read_head := zero_read_ctx,
           trace := [K_mutex_lock, Fcb_append 3, Fcb_clear, K_mutex_unlock]\<rparr>)"
  using add_data_failure_handling
    [where buf_size = 3 and s = "reading 1 [0, - EINVAL]" and env = scripted and ?r0.0 = 0
       and ?w1.0 = "[- EINVAL]" and ?r1.0 = "- EINVAL" and ?loc1.0 = zero_entry and ?w2.0 = "[]"
       and ?r2.0 = 0 and ?w3.0 = "[]"
       and ?r3.0 = 0 and ?loc2.0 = "\<lparr>fe_sector = Some 0, fe_elem_off = 8, fe_data_off = 10, fe_data_len = 3\<rparr>"
       and ?w4.0 = "[]"
       and rr = "- EINVAL" and loc = zero_entry and w = "[]"
       and pre = "[K_mutex_lock, Fcb_append (3 mod 65536)]"
       and b = "[0x41, 0x41, 0x41]" and ?r4.0 = 0 and ?w5.0 = "[]" and ?r5.0 = 0 and ?w6.0 = "[]"]
  by (simp add: run_defs)

text \<open>
  C1 as stated fails. The lock and the reservation succeed and the write of the bytes
  fails with \<open>- EIO\<close>: the append returns \<open>- EIO\<close>, \<^verbatim>\<open>fcb_clear\<close> is not among the calls
  made, and the read cursor still stands one byte into its entry.
\<close>

theorem add_data_write_failure_keeps_store:
  "zmod_log_storage_add_data scripted (reading 1 [0, 0, - EIO]) (Some [0x41, 0x41, 0x41]) 3
     = (- EIO,
        (reading 1 [])
          \<lparr>trace := [K_mutex_lock, Fcb_append 3, Flash_area_write (Some 1) 10 [0x41, 0x41, 0x41] 3,
                      K_mutex_unlock]\<rparr>) \<and>
   Fcb_clear \<notin> set [K_mutex_lock, Fcb_append 3, Flash_area_write (Some 1) 10 [0x41, 0x41, 0x41] 3,
                      K_mutex_unlock] \<and>
   read_head (reading 1 ([] :: int list)) \<noteq> zero_read_ctx"
  by (simp add: run_defs)

subsection \<open>Fetch: one entry per call\<close>

lemma len16:
  fixes w :: "16 word"
  assumes "b \<le> unat w"
  shows "nat ((uint w - int b) mod 65536) = unat w - b"
proof -
  have "uint w < 2 ^ LENGTH(16)" by (rule uint_bounded)
  also have "(2::int) ^ LENGTH(16) = 65536" by simp
  finally have u: "uint w < 65536" .
  have le: "int b \<le> uint w"
    unfolding uint_nat using assms by (simp only: of_nat_le_iff)
  have "0 \<le> uint w - int b" using le by linarith
  moreover have "uint w - int b < 65536" using u by linarith
  ultimately have m: "(uint w - int b) mod 65536 = uint w - int b"
    by (rule mod_pos_pos_trivial)
  have gen: "nat (int a - int b) = a - b" for a :: nat by simp
  have "nat ((uint w - int b) mod 65536) = nat (uint w - int b)"
    by (simp only: m)
  also have "\<dots> = nat (int (unat w) - int b)"
    by (simp only: uint_nat)
  also have "\<dots> = unat w - b"
    by (rule gen)
  finally show ?thesis .
qed

lemma fetch_len_within:
  assumes "read_bytes ctx \<le> unat (fe_data_len (head ctx))"
  shows "fetch_len ctx dest_size = min dest_size (unat (fe_data_len (head ctx)) - read_bytes ctx)"
proof -
  have "nat ((uint (fe_data_len (head ctx)) - int (read_bytes ctx)) mod 65536)
          = unat (fe_data_len (head ctx)) - read_bytes ctx"
    by (rule len16 [OF assms])
  then show ?thesis
    by (simp add: fetch_len_def Let_def min_def)
qed

lemma advance_result:
  assumes "fetch_advance env s1 r0 = (ret, s2)" and "0 \<le> r0"
  shows "fa s2 = fa s1 \<and>
         (if needs_advance s1 then
            read_bytes (read_head s2) = 0 \<and>
            trace s2 = trace s1 @ [Fcb_getnext (head (read_head s1))]
          else s2 = s1 \<and> ret = r0)"
  using assms
  by (auto simp: fetch_advance_def needs_advance_def ext_def Let_def split: prod.splits if_splits)

text \<open>The shape of a fetch that does not fail: the three calls that gave no error.\<close>

lemma fetch_ok_state:
  assumes run: "zmod_log_storage_fetch_data env s (Some d) dest_size (Some out) = (ret, dst', out', s')"
    and ok: "0 \<le> ret"
  obtains r0 w1 r1 s2 d2 w2 where
    "k_mutex_lock env (world s) = (r0, w1)" and "0 \<le> r0"
    and "fetch_advance env (ext K_mutex_lock w1 s) r0 = (r1, s2)" and "0 \<le> r1"
    and "out' = Some (fetch_len (read_head s2) dest_size)"
    and "s' = unlock env
           ((ext (Flash_area_read (fa s2)
                    (fcb_entry_fa_data_off env (head (read_head s2)) + read_bytes (read_head s2))
                    (fetch_len (read_head s2) dest_size)) w2 s2)
              \<lparr>read_head := (read_head s2)
                 \<lparr>read_bytes := read_bytes (read_head s2) + fetch_len (read_head s2) dest_size\<rparr>\<rparr>)"
proof -
  obtain r0 w1 where lk: "k_mutex_lock env (world s) = (r0, w1)"
    by (cases "k_mutex_lock env (world s)")
  let ?s1 = "ext K_mutex_lock w1 s"
  have r0: "0 \<le> r0"
    using run ok lk by (auto simp: zmod_log_storage_fetch_data_def Let_def split: if_splits)
  obtain r1 s2 where adv: "fetch_advance env ?s1 r0 = (r1, s2)"
    by (cases "fetch_advance env ?s1 r0")
  have r1: "0 \<le> r1"
    using run ok lk r0 adv
    by (auto simp: zmod_log_storage_fetch_data_def Let_def split: if_splits)
  let ?ctx = "read_head s2"
  let ?n = "fetch_len ?ctx dest_size"
  let ?off = "fcb_entry_fa_data_off env (head ?ctx) + read_bytes ?ctx"
  obtain r2 d2 w2 where rd: "flash_area_read env (world s2) (fa s2) ?off d ?n = (r2, d2, w2)"
    by (cases "flash_area_read env (world s2) (fa s2) ?off d ?n")
  have r2: "0 \<le> r2"
    using run ok lk r0 adv r1 rd
    by (auto simp: zmod_log_storage_fetch_data_def Let_def split: if_splits)
  have "out' = Some ?n"
    and "s' = unlock env ((ext (Flash_area_read (fa s2) ?off ?n) w2 s2)
            \<lparr>read_head := ?ctx\<lparr>read_bytes := read_bytes ?ctx + ?n\<rparr>\<rparr>)"
    using run lk r0 adv r1 rd r2
    by (auto simp: zmod_log_storage_fetch_data_def Let_def)
  with lk r0 adv r1 show ?thesis by (rule that)
qed

text \<open>
  C9. Take a state whose cursor satisfies \<open>cursor_inv\<close> and a fetch that does not fail.
  Let \<open>before\<close> be the number of bytes of the current entry delivered earlier: zero when
  the call moved the cursor to the next entry, the old count otherwise (and then the entry
  is the old one). The number of bytes written is the minimum of the capacity and of the
  rest of that entry; the cursor advances by that number and stays within the entry; and
  the call makes exactly one flash read, of that length, at the offset of the entry's data
  plus \<open>before\<close>.
\<close>

theorem fetch_delivers_within_one_entry:
  assumes inv: "cursor_inv s"
    and run: "zmod_log_storage_fetch_data env s (Some d) dest_size (Some out) = (ret, dst', out', s')"
    and ok: "0 \<le> ret"
  shows "\<exists>len before.
           out' = Some len \<and>
           before = (if needs_advance s then 0 else read_bytes (read_head s)) \<and>
           (\<not> needs_advance s \<longrightarrow> head (read_head s') = head (read_head s)) \<and>
           len = min dest_size (unat (fe_data_len (head (read_head s'))) - before) \<and>
           read_bytes (read_head s') = before + len \<and>
           before + len \<le> unat (fe_data_len (head (read_head s'))) \<and>
           filter is_flash_read (drop (length (trace s)) (trace s'))
             = [Flash_area_read (fa s)
                  (fcb_entry_fa_data_off env (head (read_head s')) + before) len]"
proof -
  from run ok obtain r0 w1 r1 s2 d2 w2 where
    lk: "k_mutex_lock env (world s) = (r0, w1)" and r0: "0 \<le> r0"
    and adv: "fetch_advance env (ext K_mutex_lock w1 s) r0 = (r1, s2)"
    and out': "out' = Some (fetch_len (read_head s2) dest_size)"
    and s': "s' = unlock env
           ((ext (Flash_area_read (fa s2)
                    (fcb_entry_fa_data_off env (head (read_head s2)) + read_bytes (read_head s2))
                    (fetch_len (read_head s2) dest_size)) w2 s2)
              \<lparr>read_head := (read_head s2)
                 \<lparr>read_bytes := read_bytes (read_head s2) + fetch_len (read_head s2) dest_size\<rparr>\<rparr>)"
    by (rule fetch_ok_state)
  let ?s1 = "ext K_mutex_lock w1 s"
  let ?ctx = "read_head s2"
  from advance_result [OF adv r0]
  have f2: "fa s2 = fa s"
    and a: "needs_advance s \<Longrightarrow>
              read_bytes ?ctx = 0 \<and> trace s2 = trace s @ [K_mutex_lock, Fcb_getnext (head (read_head s))]"
    and b: "\<not> needs_advance s \<Longrightarrow> s2 = ?s1"
    by (auto simp: needs_advance_def ext_def)
  have inv2: "read_bytes ?ctx \<le> unat (fe_data_len (head ?ctx))"
  proof (cases "needs_advance s")
    case True
    with a show ?thesis by simp
  next
    case False
    with b inv show ?thesis by (simp add: cursor_inv_def ext_def)
  qed
  have n: "fetch_len ?ctx dest_size = min dest_size (unat (fe_data_len (head ?ctx)) - read_bytes ?ctx)"
    by (rule fetch_len_within [OF inv2])
  show ?thesis
  proof (cases "needs_advance s")
    case True
    with a n out' s' f2 show ?thesis
      by (auto simp: ext_def unlock_def is_flash_read_def min_def)
  next
    case False
    with b n out' s' f2 inv2 show ?thesis
      by (auto simp: ext_def unlock_def is_flash_read_def min_def)
  qed
qed

text \<open>One byte of three delivered, room for four: the fetch writes the two bytes left.\<close>

theorem fetch_delivers_within_one_entry_witness:
  "cursor_inv (reading 1 ([] :: int list)) \<and>
   zmod_log_storage_fetch_data scripted (reading 1 []) (Some [0, 0, 0, 0]) 4 (Some 0)
     = (0, Some [0x41, 0x41, 0, 0], Some 2,
        (reading 3 []) \<lparr>trace := [K_mutex_lock, Flash_area_read (Some 1) 11 2, K_mutex_unlock]\<rparr>) \<and>
   (2::nat) = min 4 (3 - 1)"
proof -
  have rep: "replicate 2 (0x41 :: byte) = [0x41, 0x41]"
    by (simp add: numeral_2_eq_2)
  have inv: "cursor_inv (reading 1 ([] :: int list))"
    by (simp add: cursor_inv_def reading_def fresh_def)
  have run: "zmod_log_storage_fetch_data scripted (reading 1 []) (Some [0, 0, 0, 0]) 4 (Some 0)
     = (0, Some [0x41, 0x41, 0, 0], Some 2,
        (reading 3 []) \<lparr>trace := [K_mutex_lock, Flash_area_read (Some 1) 11 2, K_mutex_unlock]\<rparr>)"
    using rep by (simp add: run_defs)
  from fetch_delivers_within_one_entry [OF inv run] inv run show ?thesis
    by simp
qed

text \<open>The invariant of the cursor holds initially and every operation keeps it.\<close>

lemma fetch_error_cursor:
  assumes run: "zmod_log_storage_fetch_data env s dst dest_size out_size = (ret, dst', out', s')"
    and neg: "ret < 0"
  shows "read_head s' = read_head s \<or> read_bytes (read_head s') = 0"
proof (cases dst)
  case None
  then show ?thesis using run by (simp add: zmod_log_storage_fetch_data_def)
next
  case d: (Some d)
  show ?thesis
  proof (cases out_size)
    case None
    then show ?thesis using run d by (simp add: zmod_log_storage_fetch_data_def)
  next
    case out: (Some out)
    obtain r0 w1 where lk: "k_mutex_lock env (world s) = (r0, w1)"
      by (cases "k_mutex_lock env (world s)")
    let ?s1 = "ext K_mutex_lock w1 s"
    show ?thesis
    proof (cases "r0 < 0")
      case True
      then show ?thesis
        using run d out lk by (auto simp: zmod_log_storage_fetch_data_def ext_def Let_def)
    next
      case r0: False
      obtain r1 s2 where adv: "fetch_advance env ?s1 r0 = (r1, s2)"
        by (cases "fetch_advance env ?s1 r0")
      from r0 have "0 \<le> r0" by simp
      from advance_result [OF adv this]
      have s2: "read_head s2 = read_head s \<or> read_bytes (read_head s2) = 0"
        by (auto simp: ext_def split: if_splits)
      let ?ctx = "read_head s2"
      let ?n = "fetch_len ?ctx dest_size"
      let ?off = "fcb_entry_fa_data_off env (head ?ctx) + read_bytes ?ctx"
      obtain r2 d2 w2 where rd: "flash_area_read env (world s2) (fa s2) ?off d ?n = (r2, d2, w2)"
        by (cases "flash_area_read env (world s2) (fa s2) ?off d ?n")
      have "read_head s' = read_head s2"
        using run neg d out lk r0 adv rd
        by (auto simp: zmod_log_storage_fetch_data_def ext_def unlock_def Let_def split: if_splits)
      with s2 show ?thesis by simp
    qed
  qed
qed

lemma fetch_keeps_cursor_inv:
  assumes inv: "cursor_inv s"
  shows "cursor_inv (snd (snd (snd (zmod_log_storage_fetch_data env s dst dest_size out_size))))"
proof -
  obtain ret dst' out' s' where
    run: "zmod_log_storage_fetch_data env s dst dest_size out_size = (ret, dst', out', s')"
    by (cases "zmod_log_storage_fetch_data env s dst dest_size out_size") auto
  have "cursor_inv s'"
  proof (cases "ret < 0")
    case True
    from fetch_error_cursor [OF run True] inv show ?thesis
      by (auto simp: cursor_inv_def)
  next
    case False
    then have ok: "0 \<le> ret" by simp
    have "dst \<noteq> None \<and> out_size \<noteq> None"
      using run False by (auto simp: zmod_log_storage_fetch_data_def split: option.splits)
    then obtain d out where "dst = Some d" "out_size = Some out" by auto
    with run have run': "zmod_log_storage_fetch_data env s (Some d) dest_size (Some out) = (ret, dst', out', s')"
      by simp
    from run' ok obtain r0 w1 r1 s2 d2 w2 where
      r0: "0 \<le> r0"
      and adv: "fetch_advance env (ext K_mutex_lock w1 s) r0 = (r1, s2)"
      and s': "s' = unlock env
           ((ext (Flash_area_read (fa s2)
                    (fcb_entry_fa_data_off env (head (read_head s2)) + read_bytes (read_head s2))
                    (fetch_len (read_head s2) dest_size)) w2 s2)
              \<lparr>read_head := (read_head s2)
                 \<lparr>read_bytes := read_bytes (read_head s2) + fetch_len (read_head s2) dest_size\<rparr>\<rparr>)"
      by (rule fetch_ok_state)
    from advance_result [OF adv r0] inv
    have inv2: "read_bytes (read_head s2) \<le> unat (fe_data_len (head (read_head s2)))"
      by (auto simp: cursor_inv_def ext_def split: if_splits)
    from fetch_len_within [OF inv2, of dest_size] inv2 s' show ?thesis
      by (simp add: cursor_inv_def ext_def unlock_def)
  qed
  with run show ?thesis by simp
qed

lemma reset_read_cursor_inv: "cursor_inv (zmod_log_storage_reset_read s)"
  by (simp add: cursor_inv_def zmod_log_storage_reset_read_def zero_read_ctx_def)

lemma clear_keeps_cursor_inv:
  "cursor_inv s \<Longrightarrow> cursor_inv (snd (zmod_log_storage_clear env s))"
  by (simp add: cursor_inv_def zmod_log_storage_clear_def zero_read_ctx_def ext_def unlock_def
      Let_def split_beta)

lemma init_keeps_cursor_inv:
  "cursor_inv s \<Longrightarrow> cursor_inv (snd (zmod_log_storage_init env n s))"
  by (simp add: cursor_inv_def zmod_log_storage_init_def close_fa_def zmod_log_storage_reset_read_def
      zero_read_ctx_def ext_def Let_def split_beta)

lemma add_data_keeps_cursor_inv:
  assumes "cursor_inv s"
  shows "cursor_inv (snd (zmod_log_storage_add_data env s buf buf_size))"
proof (cases "buf = None \<or> buf_size = 0 \<or> export_in_progress s \<or> fst (k_mutex_lock env (world s)) < 0")
  case True
  with assms show ?thesis
    by (auto simp: cursor_inv_def zmod_log_storage_add_data_def ext_def Let_def split_beta
        split: option.splits)
next
  case False
  then obtain b where b: "buf = Some b" by auto
  let ?s1 = "ext K_mutex_lock (snd (k_mutex_lock env (world s))) s"
  have rh: "read_head ?s1 = read_head s" by (simp add: ext_def)
  show ?thesis
  proof (cases "add_data_reserve env ?s1 buf_size")
    case (Inl early)
    with reserve_rotations [where env = env and s = ?s1 and n = buf_size] False b rh assms show ?thesis
      by (auto simp: cursor_inv_def zmod_log_storage_add_data_def Let_def split_beta)
  next
    case (Inr r)
    obtain ret loc s2 where r: "r = (ret, loc, s2)" by (cases r)
    from reserve_rotations [where env = env and s = ?s1 and n = buf_size] Inr r rh
    have "read_head s2 = read_head s" by auto
    with commit_read_head [of env s2 ret loc b buf_size] Inr r False b assms show ?thesis
      by (auto simp: cursor_inv_def zero_read_ctx_def zero_entry_def
          zmod_log_storage_add_data_def Let_def split_beta)
  qed
qed

subsection \<open>Fetch after the last entry\<close>

text \<open>
  The cursor has delivered its entry completely and the FCB has no further entry. The fetch
  returns the error of \<^verbatim>\<open>fcb_getnext\<close>, and the delivered count has been zeroed before
  that call (line 273).
\<close>

lemma fetch_exhausted_zeroes_read_bytes:
  assumes "fe_sector (head (read_head s)) \<noteq> None"
    and "read_bytes (read_head s) = unat (fe_data_len (head (read_head s)))"
    and "k_mutex_lock env (world s) = (r0, w1)" and "0 \<le> r0"
    and "fcb_getnext env w1 (head (read_head s)) = (r1, loc, w2)" and "r1 < 0"
  shows "zmod_log_storage_fetch_data env s (Some d) dest_size (Some out)
           = (r1, Some d, Some out,
              s\<lparr>read_head := \<lparr>head = loc, read_bytes = 0\<rparr>,
                world := k_mutex_unlock env w2,
                trace := trace s @ [K_mutex_lock, Fcb_getnext (head (read_head s)), K_mutex_unlock]\<rparr>)"
  using assms
  by (simp add: zmod_log_storage_fetch_data_def fetch_advance_def ext_def unlock_def Let_def)

text \<open>
  A cursor that stands on a non-empty entry with a delivered count of zero, as the
  failed call above leaves it when \<^verbatim>\<open>fcb_getnext\<close> keeps the descriptor: the next fetch
  does not ask the FCB and delivers from the start of that entry.
\<close>

lemma fetch_from_zeroed_cursor:
  assumes "fe_sector (head (read_head s)) \<noteq> None"
    and "read_bytes (read_head s) = 0"
    and "0 < unat (fe_data_len (head (read_head s)))"
    and "k_mutex_lock env (world s) = (r0, w1)" and "0 \<le> r0"
    and "flash_area_read env w1 (fa s) (fcb_entry_fa_data_off env (head (read_head s))) d
           (min dest_size (unat (fe_data_len (head (read_head s))))) = (r2, d2, w2)"
    and "0 \<le> r2"
  shows "zmod_log_storage_fetch_data env s (Some d) dest_size (Some out)
           = (r2, Some d2, Some (min dest_size (unat (fe_data_len (head (read_head s))))),
              s\<lparr>read_head := (read_head s)
                   \<lparr>read_bytes := min dest_size (unat (fe_data_len (head (read_head s))))\<rparr>,
                world := k_mutex_unlock env w2,
                trace := trace s @
                  [K_mutex_lock,
                   Flash_area_read (fa s) (fcb_entry_fa_data_off env (head (read_head s)))
                     (min dest_size (unat (fe_data_len (head (read_head s))))),
                   K_mutex_unlock]\<rparr>)"
proof -
  have "read_bytes (read_head s) \<le> unat (fe_data_len (head (read_head s)))"
    using assms(2) by simp
  from fetch_len_within [OF this, of dest_size] assms(2)
  have n: "fetch_len (read_head s) dest_size = min dest_size (unat (fe_data_len (head (read_head s))))"
    by simp
  show ?thesis
    using assms n
    by (auto simp: zmod_log_storage_fetch_data_def fetch_advance_def ext_def unlock_def Let_def)
qed

text \<open>
  C2, evaluated where the code departs from it. The store holds one entry of three bytes,
  all delivered, and the FCB reports no further entry. The first fetch returns
  \<open>- ENOENT\<close> and leaves the delivered count at zero instead of three. The second fetch
  then finds the cursor inside its entry, asks the FCB nothing, returns 0 and delivers the
  three bytes of the last entry again.
\<close>

theorem fetch_after_exhaustion_redelivers:
  "zmod_log_storage_fetch_data scripted (reading 3 [0, - ENOENT]) (Some [0, 0, 0, 0]) 4 (Some 0)
     = (- ENOENT, Some [0, 0, 0, 0], Some 0,
        (reading 0 [])
          \<lparr>trace := [K_mutex_lock,
                      Fcb_getnext \<lparr>fe_sector = Some 0, fe_elem_off = 8, fe_data_off = 10, fe_data_len = 3\<rparr>,
                      K_mutex_unlock]\<rparr>) \<and>
   zmod_log_storage_fetch_data scripted (reading 0 []) (Some [0, 0, 0, 0]) 4 (Some 0)
     = (0, Some [0x41, 0x41, 0x41, 0], Some 3,
        (reading 3 []) \<lparr>trace := [K_mutex_lock, Flash_area_read (Some 1) 10 3, K_mutex_unlock]\<rparr>)"
proof -
  have "replicate 3 (0x41 :: byte) = [0x41, 0x41, 0x41]"
    by (simp add: numeral_3_eq_3)
  then show ?thesis
    by (simp add: run_defs)
qed

subsection \<open>The lock\<close>

text \<open>Append and fetch give up with \<open>- EBUSY\<close> when the lock is not obtained.\<close>

lemma add_data_busy:
  "buf_size \<noteq> 0 \<Longrightarrow> \<not> export_in_progress s \<Longrightarrow> k_mutex_lock env (world s) = (r0, w1) \<Longrightarrow> r0 < 0 \<Longrightarrow>
     zmod_log_storage_add_data env s (Some b) buf_size = (- EBUSY, ext K_mutex_lock w1 s)"
  by (simp add: zmod_log_storage_add_data_def Let_def)

lemma fetch_data_busy:
  "k_mutex_lock env (world s) = (r0, w1) \<Longrightarrow> r0 < 0 \<Longrightarrow>
     zmod_log_storage_fetch_data env s (Some d) dest_size (Some out)
       = (- EBUSY, Some d, Some out, ext K_mutex_lock w1 s)"
  by (simp add: zmod_log_storage_fetch_data_def Let_def)

text \<open>Clear makes the same three calls whatever the lock returns.\<close>

lemma clear_trace:
  "trace (snd (zmod_log_storage_clear env s)) = trace s @ [K_mutex_lock, Fcb_clear, K_mutex_unlock]"
  by (simp add: zmod_log_storage_clear_def Let_def split_beta)

text \<open>
  C3, evaluated where the code departs from it. The lock times out (\<open>- EAGAIN\<close>).
  \<^verbatim>\<open>zmod_log_storage_clear\<close> does not look at that result: it calls \<^verbatim>\<open>fcb_clear\<close>, zeroes
  the read cursor, unlocks a mutex it does not hold and returns 0, not \<open>- EBUSY\<close>.
\<close>

theorem clear_proceeds_without_lock:
  "fst (k_mutex_lock scripted [- EAGAIN]) < 0 \<and>
   zmod_log_storage_clear scripted (reading 1 [- EAGAIN])
     = (0, (reading 1 [])
             \<lparr>read_head := zero_read_ctx,
              trace := [K_mutex_lock, Fcb_clear, K_mutex_unlock]\<rparr>)"
  by (simp add: run_defs)

subsection \<open>Export suppression\<close>

text \<open>
  C4. With the export flag set, an append of a non-null, non-empty record returns 0 and
  the whole state is as before: the fields of the instance (the read cursor among them),
  the world of the collaborators, and the list of calls, so that no lock was taken and
  nothing was written.
\<close>

theorem add_data_export_suppressed:
  "export_in_progress s \<Longrightarrow> buf_size \<noteq> 0 \<Longrightarrow>
     zmod_log_storage_add_data env s (Some b) buf_size = (0, s)"
  by (simp add: zmod_log_storage_add_data_def)

theorem add_data_export_suppressed_witness:
  "export_in_progress ((reading 1 [- EAGAIN])\<lparr>export_in_progress := True\<rparr>) \<and> (3::nat) \<noteq> 0 \<and>
   zmod_log_storage_add_data scripted ((reading 1 [- EAGAIN])\<lparr>export_in_progress := True\<rparr>)
       (Some [0x41, 0x41, 0x41]) 3
     = (0, (reading 1 [- EAGAIN])\<lparr>export_in_progress := True\<rparr>)"
  using add_data_export_suppressed
    [of "(reading 1 [- EAGAIN])\<lparr>export_in_progress := True\<rparr>" 3 scripted "[0x41, 0x41, 0x41]"]
  by simp

subsection \<open>Rotation\<close>

text \<open>No append makes more than one call of \<^verbatim>\<open>fcb_rotate\<close>.\<close>

lemma add_data_rotate_bound:
  "length (filter (\<lambda>c. c = Fcb_rotate) (trace (snd (zmod_log_storage_add_data env s buf buf_size))))
     \<le> Suc (length (filter (\<lambda>c. c = Fcb_rotate) (trace s)))"
proof (cases "buf = None \<or> buf_size = 0 \<or> export_in_progress s \<or> fst (k_mutex_lock env (world s)) < 0")
  case True
  then show ?thesis
    by (auto simp: zmod_log_storage_add_data_def ext_def Let_def split_beta split: option.splits)
next
  case False
  then obtain b where b: "buf = Some b" by auto
  let ?s1 = "ext K_mutex_lock (snd (k_mutex_lock env (world s))) s"
  have t1: "filter (\<lambda>c. c = Fcb_rotate) (trace ?s1) = filter (\<lambda>c. c = Fcb_rotate) (trace s)"
    by (simp add: ext_def)
  show ?thesis
  proof (cases "add_data_reserve env ?s1 buf_size")
    case (Inl early)
    with reserve_rotations [where env = env and s = ?s1 and n = buf_size] False b t1 show ?thesis
      by (auto simp: zmod_log_storage_add_data_def Let_def split_beta)
  next
    case (Inr r)
    obtain ret loc s2 where r: "r = (ret, loc, s2)" by (cases r)
    from reserve_rotations [where env = env and s = ?s1 and n = buf_size] Inr r t1
    have "length (filter (\<lambda>c. c = Fcb_rotate) (trace s2))
            \<le> Suc (length (filter (\<lambda>c. c = Fcb_rotate) (trace s)))"
      by auto
    with commit_rotations [of env s2 ret loc b buf_size] Inr r False b show ?thesis
      by (simp add: zmod_log_storage_add_data_def Let_def split_beta)
  qed
qed

text \<open>Without a sector-full result of the first reservation there is no rotation at all.\<close>

lemma add_data_no_rotation:
  assumes "buf_size \<noteq> 0" and "\<not> export_in_progress s"
    and "k_mutex_lock env (world s) = (r0, w1)" and "0 \<le> r0"
    and "fcb_append env w1 (buf_size mod 65536) zero_entry = (r1, loc1, w2)"
    and "r1 \<noteq> - ENOSPC"
  shows "filter (\<lambda>c. c = Fcb_rotate) (trace (snd (zmod_log_storage_add_data env s (Some b) buf_size)))
           = filter (\<lambda>c. c = Fcb_rotate) (trace s)"
  using assms
  by (simp add: zmod_log_storage_add_data_def add_data_reserve_def add_data_commit_def
      ext_def unlock_def Let_def split_beta)

text \<open>
  C6, amended. The lock is obtained and the first reservation returns \<open>- ENOSPC\<close>. The
  function calls \<^verbatim>\<open>fcb_rotate\<close> once.
  \<^item> When the rotation fails, the function unlocks and returns the error of the rotation:
    the reservation is not retried.
  \<^item> When the rotation does not fail, the reservation is made once more, with the same
    length (the size converted to 16 bits, as in the first call). If the retry, the write
    and the finalisation do not fail, the append returns 0: the sector-full result is not
    reported. If the retry fails, its error is returned after the clear.
  In every case the call adds exactly one rotation to the list of calls, and one
  reservation when the rotation failed, two otherwise.
\<close>

theorem add_data_rotates_once:
  assumes "buf_size \<noteq> 0" and "\<not> export_in_progress s"
    and "k_mutex_lock env (world s) = (r0, w1)" and "0 \<le> r0"
    and "fcb_append env w1 (buf_size mod 65536) zero_entry = (- ENOSPC, loc1, w2)"
    and "fcb_rotate env w2 = (r2, w3)"
    and "fcb_append env w3 (buf_size mod 65536) loc1 = (r3, loc2, w4)"
    and "flash_area_write env w4 (fa s) (fcb_entry_fa_data_off env loc2) b buf_size = (r4, w5)"
    and "fcb_append_finish env w5 loc2 = (r5, w6)"
  shows "(r2 < 0 \<longrightarrow>
            zmod_log_storage_add_data env s (Some b) buf_size
              = (r2, s\<lparr>world := k_mutex_unlock env w3,
                       trace := trace s @
                         [K_mutex_lock, Fcb_append (buf_size mod 65536), Fcb_rotate,
                          K_mutex_unlock]\<rparr>)) \<and>
         (0 \<le> r2 \<and> 0 \<le> r3 \<and> 0 \<le> r4 \<and> 0 \<le> r5 \<longrightarrow>
            zmod_log_storage_add_data env s (Some b) buf_size
              = (0, s\<lparr>world := k_mutex_unlock env w6,
                      trace := trace s @
                        [K_mutex_lock, Fcb_append (buf_size mod 65536), Fcb_rotate,
                         Fcb_append (buf_size mod 65536),
                         Flash_area_write (fa s) (fcb_entry_fa_data_off env loc2) b buf_size,
                         Fcb_append_finish loc2, K_mutex_unlock]\<rparr>)) \<and>
         (0 \<le> r2 \<and> r3 < 0 \<longrightarrow>
            zmod_log_storage_add_data env s (Some b) buf_size
              = (r3, s\<lparr>read_head := zero_read_ctx,
                       world := k_mutex_unlock env (snd (fcb_clear env w4)),
                       trace := trace s @
                         [K_mutex_lock, Fcb_append (buf_size mod 65536), Fcb_rotate,
                          Fcb_append (buf_size mod 65536), Fcb_clear, K_mutex_unlock]\<rparr>)) \<and>
         length (filter (\<lambda>c. c = Fcb_rotate)
                   (trace (snd (zmod_log_storage_add_data env s (Some b) buf_size))))
           = Suc (length (filter (\<lambda>c. c = Fcb_rotate) (trace s))) \<and>
         length (filter (\<lambda>c. c = Fcb_append (buf_size mod 65536))
                   (trace (snd (zmod_log_storage_add_data env s (Some b) buf_size))))
           = (if r2 < 0 then 1 else 2)
             + length (filter (\<lambda>c. c = Fcb_append (buf_size mod 65536)) (trace s))"
proof (cases "r2 < 0")
  case True
  with assms show ?thesis
    by (simp add: zmod_log_storage_add_data_def add_data_reserve_def ext_def unlock_def Let_def)
next
  case rot: False
  show ?thesis
  proof (cases "r3 < 0")
    case True
    with assms rot show ?thesis
      by (simp add: zmod_log_storage_add_data_def add_data_reserve_def add_data_commit_def
          ext_def unlock_def Let_def split_beta)
  next
    case res: False
    show ?thesis
    proof (cases "r4 < 0")
      case True
      with assms rot res show ?thesis
        by (simp add: zmod_log_storage_add_data_def add_data_reserve_def add_data_commit_def
            ext_def unlock_def Let_def)
    next
      case wr: False
      show ?thesis
      proof (cases "r5 < 0")
        case True
        with assms rot res wr show ?thesis
          by (simp add: zmod_log_storage_add_data_def add_data_reserve_def add_data_commit_def
              ext_def unlock_def Let_def)
      next
        case False
        with assms rot res wr show ?thesis
          by (simp add: zmod_log_storage_add_data_def add_data_reserve_def add_data_commit_def
              ext_def unlock_def Let_def)
      qed
    qed
  qed
qed

text \<open>Sector full, a rotation that succeeds, a retry that succeeds: the append returns 0.\<close>

theorem add_data_rotates_once_witness:
  "(3::nat) \<noteq> 0 \<and> \<not> export_in_progress (reading 1 [0, - ENOSPC]) \<and>
   k_mutex_lock scripted (world (reading 1 [0, - ENOSPC])) = (0, [- ENOSPC]) \<and>
   fcb_append scripted [- ENOSPC] (3 mod 65536) zero_entry = (- ENOSPC, zero_entry, []) \<and>
   fcb_rotate scripted [] = (0, []) \<and>
   zmod_log_storage_add_data scripted (reading 1 [0, - ENOSPC]) (Some [0x41, 0x41, 0x41]) 3
     = (0, (reading 1 [])
             \<lparr>trace := [K_mutex_lock, Fcb_append 3, Fcb_rotate, Fcb_append 3,
                         Flash_area_write (Some 1) 10 [0x41, 0x41, 0x41] 3,
                         Fcb_append_finish \<lparr>fe_sector = Some 0, fe_elem_off = 8, fe_data_off = 10, fe_data_len = 3\<rparr>,
                         K_mutex_unlock]\<rparr>)"
  using add_data_rotates_once
    [where buf_size = 3 and s = "reading 1 [0, - ENOSPC]" and env = scripted and ?r0.0 = 0
       and ?w1.0 = "[- ENOSPC]" and ?loc1.0 = zero_entry and ?w2.0 = "[]" and ?r2.0 = 0 and ?w3.0 = "[]"
       and ?r3.0 = 0
       and ?loc2.0 = "\<lparr>fe_sector = Some 0, fe_elem_off = 8, fe_data_off = 10, fe_data_len = 3\<rparr>"
       and ?w4.0 = "[]" and b = "[0x41, 0x41, 0x41]" and ?r4.0 = 0 and ?w5.0 = "[]" and ?r5.0 = 0
       and ?w6.0 = "[]"]
  by (simp add: run_defs)

text \<open>
  C6 as stated fails. The first reservation returns \<open>- ENOSPC\<close> and the rotation fails
  with \<open>- EIO\<close>: the append returns \<open>- EIO\<close> and the list of calls holds one reservation
  only. The reservation is not retried.
\<close>

theorem add_data_failed_rotation_no_retry:
  "zmod_log_storage_add_data scripted (reading 1 [0, - ENOSPC, - EIO]) (Some [0x41, 0x41, 0x41]) 3
     = (- EIO,
        (reading 1 [])
          \<lparr>trace := [K_mutex_lock, Fcb_append 3, Fcb_rotate, K_mutex_unlock]\<rparr>) \<and>
   length (filter (\<lambda>c. c = Fcb_append 3) [K_mutex_lock, Fcb_append 3, Fcb_rotate, K_mutex_unlock]) = 1"
  by (simp add: run_defs)

subsection \<open>Invalid arguments\<close>

text \<open>
  C8. A null buffer makes append return \<open>- EINVAL\<close> for every length; a non-null buffer
  of length zero makes it return 0; a null destination or a null size pointer makes fetch
  return \<open>- EINVAL\<close>; a level above \<^verbatim>\<open>LOG_LEVEL_DBG\<close> makes \<^verbatim>\<open>zmod_log_storage_set_log_level\<close>
  return \<open>- EINVAL\<close>. In each case the state is as before, the list of calls included: no
  lock, no device access, nothing applied or persisted.
\<close>

theorem invalid_arguments_rejected:
  "zmod_log_storage_add_data env s None buf_size = (- EINVAL, s) \<and>
   zmod_log_storage_add_data env s (Some b) 0 = (0, s) \<and>
   (dst = None \<or> out_size = None \<longrightarrow>
      zmod_log_storage_fetch_data env s dst dest_size out_size = (- EINVAL, dst, out_size, s)) \<and>
   (uint level > LOG_LEVEL_DBG \<longrightarrow>
      zmod_log_storage_set_log_level env cfg s level = Some (- EINVAL, s))"
  by (auto simp: zmod_log_storage_add_data_def zmod_log_storage_fetch_data_def
      zmod_log_storage_set_log_level_def split: option.splits)

theorem invalid_arguments_rejected_witness:
  "zmod_log_storage_add_data scripted (reading 1 [- EAGAIN]) None 3 = (- EINVAL, reading 1 [- EAGAIN]) \<and>
   zmod_log_storage_add_data scripted (reading 1 [- EAGAIN]) None 0 = (- EINVAL, reading 1 [- EAGAIN]) \<and>
   zmod_log_storage_add_data scripted (reading 1 [- EAGAIN]) (Some []) 0 = (0, reading 1 [- EAGAIN]) \<and>
   zmod_log_storage_fetch_data scripted (reading 1 [- EAGAIN]) None 4 (Some 0)
     = (- EINVAL, None, Some 0, reading 1 [- EAGAIN]) \<and>
   zmod_log_storage_fetch_data scripted (reading 1 [- EAGAIN]) (Some [0, 0, 0, 0]) 4 None
     = (- EINVAL, Some [0, 0, 0, 0], None, reading 1 [- EAGAIN]) \<and>
   uint (5 :: byte) > LOG_LEVEL_DBG \<and>
   zmod_log_storage_set_log_level scripted sample_config (reading 1 [- EAGAIN]) 5
     = Some (- EINVAL, reading 1 [- EAGAIN])"
  using invalid_arguments_rejected
      [where env = scripted and s = "reading 1 [- EAGAIN]" and buf_size = 3 and b = "[]"
         and dst = None and out_size = "Some 0" and dest_size = 4 and level = 5
         and cfg = sample_config]
    invalid_arguments_rejected
      [where env = scripted and s = "reading 1 [- EAGAIN]" and buf_size = 0 and b = "[]"
         and dst = "Some [0, 0, 0, 0]" and out_size = None and dest_size = 4 and level = 5
         and cfg = sample_config]
  by simp

subsection \<open>Initialisation and the flash area handle\<close>




subsection \<open>Runtime log level\<close>

text \<open>
  The loop over the sources, told from the outside: the world is the one the calls of
  \<^verbatim>\<open>log_filter_set\<close> leave, made for every source in turn.
\<close>

lemma set_filters_result:
  "\<exists>c'. set_filters env l ids (c, s)
           = (c', s\<lparr>world := foldl (\<lambda>w i. snd (log_filter_set env w i l)) (world s) ids,
                    trace := trace s @ map (\<lambda>i. Log_filter_set i l) ids\<rparr>)"
proof (induction ids arbitrary: c s)
  case Nil
  show ?case by simp
next
  case (Cons i ids)
  let ?s = "ext (Log_filter_set i l) (snd (log_filter_set env (world s) i l)) s"
  show ?case
  proof (cases "fst (log_filter_set env (world s) i l) = l")
    case True
    with Cons.IH [of "c + 1" ?s] show ?thesis
      by (simp add: ext_def split_beta)
  next
    case False
    with Cons.IH [of c ?s] show ?thesis
      by (simp add: ext_def split_beta)
  qed
qed

lemma apply_level_result:
  "\<exists>c. apply_level env l s
          = (c, log_src_cnt_get env (world s),
             s\<lparr>world := foldl (\<lambda>w i. snd (log_filter_set env w i l)) (world s)
                            [0..<log_src_cnt_get env (world s)],
               trace := trace s @ Log_src_cnt_get #
                 map (\<lambda>i. Log_filter_set i l) [0..<log_src_cnt_get env (world s)]\<rparr>)"
proof -
  let ?n = "log_src_cnt_get env (world s)"
  let ?s0 = "ext Log_src_cnt_get (world s) s"
  from set_filters_result [of env l "[0..<?n]" 0 ?s0]
  obtain c' where
    "set_filters env l [0..<?n] (0, ?s0)
       = (c', ?s0\<lparr>world := foldl (\<lambda>w i. snd (log_filter_set env w i l)) (world ?s0) [0..<?n],
                   trace := trace ?s0 @ map (\<lambda>i. Log_filter_set i l) [0..<?n]\<rparr>)"
    by blast
  then show ?thesis
    by (simp add: apply_level_def ext_def Let_def)
qed

lemma set_value_log_level:
  assumes "log_level_key_ok cfg"
  shows "zmod_config_mgr_set_value env cfg s (CFG_LOG_LEVEL cfg) (Some d) (Suc 0)
           = Some (\<not> fst (nvs_write env (world s) (CFG_LOG_LEVEL cfg) d (Suc 0)) < 0,
                   s\<lparr>world := snd (nvs_write env (world s) (CFG_LOG_LEVEL cfg) d (Suc 0)),
                     trace := trace s @ [Nvs_write (CFG_LOG_LEVEL cfg) d (Suc 0)]\<rparr>)"
  using assms
  by (simp add: zmod_config_mgr_set_value_def zmod_configs_get_entry_def log_level_key_ok_def
      ext_def Let_def split_beta)

lemma get_value_log_level:
  assumes "log_level_key_ok cfg"
    and "default_value (prv_config_entries cfg ! CFG_LOG_LEVEL cfg) = [dv]"
    and "nvs_read env (world s) (CFG_LOG_LEVEL cfg) [u] (Suc 0) = (rr, [p], va)"
  shows "zmod_config_mgr_get_value env cfg s (CFG_LOG_LEVEL cfg) (Some [u]) (Suc 0)
           = Some (rr = - ENOENT \<or> \<not> rr < 0,
                   Some [if rr = - ENOENT then dv else p],
                   s\<lparr>world := va, trace := trace s @ [Nvs_read (CFG_LOG_LEVEL cfg) (Suc 0)]\<rparr>)"
  using assms
  by (simp add: zmod_config_mgr_get_value_def zmod_configs_get_entry_def log_level_key_ok_def
      overlay_def ext_def Let_def)

lemma floor_byte:
  assumes "0 \<le> m" and "m \<le> 255"
  shows "uint (word_of_int m :: byte) = m" and "unat (word_of_int m :: byte) = nat m"
proof -
  have "uint (word_of_int m :: byte) = m mod 2 ^ LENGTH(8)"
    by (simp only: uint_word_of_int)
  also have "\<dots> = m mod 256" by simp
  also have "\<dots> = m" using assms by simp
  finally show u: "uint (word_of_int m :: byte) = m" .
  show "unat (word_of_int m :: byte) = nat m"
    by (simp only: unat_eq_nat_uint u)
qed

text \<open>\<^verbatim>\<open>zmod_log_storage_set_log_level\<close> for a level of the enumeration, told from the outside.\<close>

lemma set_log_level_result:
  assumes key: "log_level_key_ok cfg" and valid: "uint level \<le> LOG_LEVEL_DBG"
    and cl: "cl = (if uint level < LOG_RUNTIME_MIN_LEVEL cfg
                   then word_of_int (LOG_RUNTIME_MIN_LEVEL cfg) else level)"
    and n: "n = log_src_cnt_get env (world s)"
    and wa: "wa = foldl (\<lambda>w i. snd (log_filter_set env w i (unat cl))) (world s) [0..<n]"
    and wr: "nvs_write env wa (CFG_LOG_LEVEL cfg) [cl] 1 = (r, wb)"
  shows "zmod_log_storage_set_log_level env cfg s level
           = Some (if r < 0 then - EIO else 0,
                   s\<lparr>world := wb,
                     trace := trace s @ Log_src_cnt_get #
                       map (\<lambda>i. Log_filter_set i (unat cl)) [0..<n] @
                       [Nvs_write (CFG_LOG_LEVEL cfg) [cl] 1]\<rparr>)"
proof -
  from apply_level_result [of env "unat cl" s] obtain c where
    ap: "apply_level env (unat cl) s
           = (c, n, s\<lparr>world := wa,
                      trace := trace s @ Log_src_cnt_get # map (\<lambda>i. Log_filter_set i (unat cl)) [0..<n]\<rparr>)"
    unfolding n wa by blast
  have c: "clamp_level cfg level = cl"
    by (simp add: clamp_level_def cl)
  show ?thesis
    using valid ap wr
    by (simp add: zmod_log_storage_set_log_level_def c set_value_log_level [OF key] Let_def)
qed

text \<open>
  C5, amended. The log level key is a valid key with a one-byte entry and the floor fits
  a byte. \<open>cl\<close> is the requested level raised to the floor, \<open>lvlb\<close> the loaded or default
  level raised to the floor.
  \<^item> For every level of the enumeration, \<^verbatim>\<open>zmod_log_storage_set_log_level\<close> sets the filter
    of every source to \<open>cl\<close> and then writes \<open>cl\<close> under the key, returning \<open>- EIO\<close> when the
    write fails and 0 otherwise. \<open>cl\<close> is at least the floor, and it is the floor when the
    request was below it.
  \<^item> \<^verbatim>\<open>zmod_log_storage_init_log_level\<close> reads the key. It takes the default when the read
    fails (other than by a missing key) or the value is above the enumeration, and then
    writes that default as it is. When the level so obtained is below the floor, it
    writes the floor next. It then sets the filter of every source to \<open>lvlb\<close>, which is at
    least the floor. The results of its writes are not looked at.
  So no filter is ever set below the floor, and the last value written is never below
  the floor; the write of a default below the floor comes before it.
\<close>

theorem log_level_clamped_to_floor:
  assumes key: "log_level_key_ok cfg"
    and lo: "0 \<le> LOG_RUNTIME_MIN_LEVEL cfg" and hi: "LOG_RUNTIME_MIN_LEVEL cfg \<le> 255"
    and cl: "cl = (if uint level < LOG_RUNTIME_MIN_LEVEL cfg
                   then word_of_int (LOG_RUNTIME_MIN_LEVEL cfg) else level)"
    and n: "n = log_src_cnt_get env (world s)"
    and wa: "wa = foldl (\<lambda>w i. snd (log_filter_set env w i (unat cl))) (world s) [0..<n]"
    and wr: "nvs_write env wa (CFG_LOG_LEVEL cfg) [cl] 1 = (r, wb)"
    and dv: "default_value (prv_config_entries cfg ! CFG_LOG_LEVEL cfg) = [dv]"
    and rd: "nvs_read env (world s) (CFG_LOG_LEVEL cfg) [u] 1 = (rr, [p], va)"
    and loaded: "loaded = (if rr = - ENOENT then dv else p)"
    and use_default: "use_default = ((rr < 0 \<and> rr \<noteq> - ENOENT) \<or> LOG_LEVEL_DBG < uint loaded)"
    and lvla: "lvla = (if use_default then word_of_int (CONFIG_LOG_DEFAULT_LEVEL cfg) else loaded)"
    and vb: "vb = (if use_default then snd (nvs_write env va (CFG_LOG_LEVEL cfg) [lvla] 1) else va)"
    and lvlb: "lvlb = (if uint lvla < LOG_RUNTIME_MIN_LEVEL cfg
                       then word_of_int (LOG_RUNTIME_MIN_LEVEL cfg) else lvla)"
    and vc: "vc = (if uint lvla < LOG_RUNTIME_MIN_LEVEL cfg
                   then snd (nvs_write env vb (CFG_LOG_LEVEL cfg) [lvlb] 1) else vb)"
    and m: "m = log_src_cnt_get env vc"
  shows "(uint level \<le> LOG_LEVEL_DBG \<longrightarrow>
            zmod_log_storage_set_log_level env cfg s level
              = Some (if r < 0 then - EIO else 0,
                      s\<lparr>world := wb,
                        trace := trace s @ Log_src_cnt_get #
                          map (\<lambda>i. Log_filter_set i (unat cl)) [0..<n] @
                          [Nvs_write (CFG_LOG_LEVEL cfg) [cl] 1]\<rparr>)) \<and>
         LOG_RUNTIME_MIN_LEVEL cfg \<le> uint cl \<and>
         (uint level < LOG_RUNTIME_MIN_LEVEL cfg \<longrightarrow> uint cl = LOG_RUNTIME_MIN_LEVEL cfg) \<and>
         (\<exists>c. zmod_log_storage_init_log_level env cfg s u
                 = Some ((lvlb, c, m),
                         s\<lparr>world := foldl (\<lambda>w i. snd (log_filter_set env w i (unat lvlb))) vc [0..<m],
                           trace := trace s @
                             [Nvs_read (CFG_LOG_LEVEL cfg) 1] @
                             (if use_default then [Nvs_write (CFG_LOG_LEVEL cfg) [lvla] 1] else []) @
                             (if uint lvla < LOG_RUNTIME_MIN_LEVEL cfg
                              then [Nvs_write (CFG_LOG_LEVEL cfg) [lvlb] 1] else []) @
                             Log_src_cnt_get # map (\<lambda>i. Log_filter_set i (unat lvlb)) [0..<m]\<rparr>)) \<and>
         LOG_RUNTIME_MIN_LEVEL cfg \<le> uint lvlb \<and>
         (uint lvla < LOG_RUNTIME_MIN_LEVEL cfg \<longrightarrow> uint lvlb = LOG_RUNTIME_MIN_LEVEL cfg)"
proof (intro conjI impI)
  let ?key = "CFG_LOG_LEVEL cfg"
  show "LOG_RUNTIME_MIN_LEVEL cfg \<le> uint cl"
    by (simp add: cl floor_byte [OF lo hi])
  show "LOG_RUNTIME_MIN_LEVEL cfg \<le> uint lvlb"
    by (simp add: lvlb floor_byte [OF lo hi])
  show "uint cl = LOG_RUNTIME_MIN_LEVEL cfg" if "uint level < LOG_RUNTIME_MIN_LEVEL cfg"
    using that by (simp add: cl floor_byte [OF lo hi])
  show "uint lvlb = LOG_RUNTIME_MIN_LEVEL cfg" if "uint lvla < LOG_RUNTIME_MIN_LEVEL cfg"
    using that by (simp add: lvlb floor_byte [OF lo hi])
  show "zmod_log_storage_set_log_level env cfg s level
          = Some (if r < 0 then - EIO else 0,
                  s\<lparr>world := wb,
                    trace := trace s @ Log_src_cnt_get #
                      map (\<lambda>i. Log_filter_set i (unat cl)) [0..<n] @
                      [Nvs_write ?key [cl] 1]\<rparr>)"
    if "uint level \<le> LOG_LEVEL_DBG"
    by (rule set_log_level_result [OF key that cl n wa wr])
  let ?sa = "s\<lparr>world := va, trace := trace s @ [Nvs_read ?key 1]\<rparr>"
  let ?sb = "s\<lparr>world := vb,
               trace := trace s @ [Nvs_read ?key 1] @
                 (if use_default then [Nvs_write ?key [lvla] 1] else [])\<rparr>"
  let ?sc = "s\<lparr>world := vc,
               trace := trace s @ [Nvs_read ?key 1] @
                 (if use_default then [Nvs_write ?key [lvla] 1] else []) @
                 (if uint lvla < LOG_RUNTIME_MIN_LEVEL cfg then [Nvs_write ?key [lvlb] 1] else [])\<rparr>"
  have rd': "nvs_read env (world s) ?key [u] (Suc 0) = (rr, [p], va)"
    using rd by simp
  have gv: "zmod_config_mgr_get_value env cfg s ?key (Some [u]) (Suc 0)
              = Some (rr = - ENOENT \<or> \<not> rr < 0, Some [loaded], ?sa)"
    using get_value_log_level [OF key dv rd'] by (simp add: loaded)
  have load: "init_log_level_load env cfg s u = Some (lvla, ?sb)"
  proof (cases use_default)
    case True
    then have "(rr < 0 \<and> rr \<noteq> - ENOENT) \<or> LOG_LEVEL_DBG < uint loaded"
      by (simp add: use_default)
    with True gv show ?thesis
      by (auto simp: init_log_level_load_def set_value_log_level [OF key] lvla vb Let_def)
  next
    case False
    then have "(rr = - ENOENT \<or> \<not> rr < 0) \<and> \<not> LOG_LEVEL_DBG < uint loaded"
      by (auto simp: use_default)
    with False gv show ?thesis
      by (auto simp: init_log_level_load_def lvla vb Let_def)
  qed
  have clamp: "init_log_level_clamp env cfg ?sb lvla = Some (lvlb, ?sc)"
    by (simp add: init_log_level_clamp_def set_value_log_level [OF key] lvlb vc Let_def)
  from apply_level_result [of env "unat lvlb" ?sc] obtain c where
    ap: "apply_level env (unat lvlb) ?sc
           = (c, m, ?sc\<lparr>world := foldl (\<lambda>w i. snd (log_filter_set env w i (unat lvlb))) vc [0..<m],
                        trace := trace ?sc @ Log_src_cnt_get #
                          map (\<lambda>i. Log_filter_set i (unat lvlb)) [0..<m]\<rparr>)"
    unfolding m by auto
  have "zmod_log_storage_init_log_level env cfg s u
          = Some ((lvlb, c, m),
                  s\<lparr>world := foldl (\<lambda>w i. snd (log_filter_set env w i (unat lvlb))) vc [0..<m],
                    trace := trace s @
                      [Nvs_read ?key 1] @
                      (if use_default then [Nvs_write ?key [lvla] 1] else []) @
                      (if uint lvla < LOG_RUNTIME_MIN_LEVEL cfg then [Nvs_write ?key [lvlb] 1] else []) @
                      Log_src_cnt_get # map (\<lambda>i. Log_filter_set i (unat lvlb)) [0..<m]\<rparr>)"
    using load clamp ap by (simp add: zmod_log_storage_init_log_level_def)
  then show "\<exists>c. zmod_log_storage_init_log_level env cfg s u
          = Some ((lvlb, c, m),
                  s\<lparr>world := foldl (\<lambda>w i. snd (log_filter_set env w i (unat lvlb))) vc [0..<m],
                    trace := trace s @
                      [Nvs_read ?key 1] @
                      (if use_default then [Nvs_write ?key [lvla] 1] else []) @
                      (if uint lvla < LOG_RUNTIME_MIN_LEVEL cfg then [Nvs_write ?key [lvlb] 1] else []) @
                      Log_src_cnt_get # map (\<lambda>i. Log_filter_set i (unat lvlb)) [0..<m]\<rparr>)"
    by blast
qed

text \<open>
  Floor 1. A request for level 0 sets the three filters to 1 and writes 1; a persisted
  level 0 is replaced by 1 at start-up, written back and applied to the three sources.
\<close>

theorem log_level_clamped_to_floor_witness:
  "log_level_key_ok sample_config \<and>
   0 \<le> LOG_RUNTIME_MIN_LEVEL sample_config \<and> LOG_RUNTIME_MIN_LEVEL sample_config \<le> 255 \<and>
   uint (0 :: byte) < LOG_RUNTIME_MIN_LEVEL sample_config \<and>
   nvs_write scripted [0] 0 [1] 1 = (1, []) \<and>
   nvs_read scripted [0] 0 [7] 1 = (1, [0], []) \<and>
   zmod_log_storage_set_log_level scripted sample_config (reading 0 [0]) 0
     = Some (0, (reading 0 [])
                  \<lparr>trace := [Log_src_cnt_get, Log_filter_set 0 1, Log_filter_set 1 1, Log_filter_set 2 1,
                              Nvs_write 0 [1] 1]\<rparr>) \<and>
   (\<exists>c. zmod_log_storage_init_log_level scripted sample_config (reading 0 [0]) 7
          = Some ((1, c, 3),
                  (reading 0 [])
                    \<lparr>trace := [Nvs_read 0 1, Nvs_write 0 [1] 1, Log_src_cnt_get,
                                Log_filter_set 0 1, Log_filter_set 1 1, Log_filter_set 2 1]\<rparr>))"
proof -
  have key: "log_level_key_ok sample_config"
    by (simp add: level_defs)
  have lo: "0 \<le> LOG_RUNTIME_MIN_LEVEL sample_config"
    and hi: "LOG_RUNTIME_MIN_LEVEL sample_config \<le> 255"
    and below: "uint (0 :: byte) < LOG_RUNTIME_MIN_LEVEL sample_config"
    and key0: "CFG_LOG_LEVEL sample_config = 0"
    and floor1: "LOG_RUNTIME_MIN_LEVEL sample_config = 1"
    by (simp_all add: level_defs)
  have cl: "(1 :: byte) = (if uint (0 :: byte) < LOG_RUNTIME_MIN_LEVEL sample_config
                           then word_of_int (LOG_RUNTIME_MIN_LEVEL sample_config) else 0)"
    by (simp add: level_defs)
  have n: "3 = log_src_cnt_get scripted (world (reading 0 [0]))"
    by (simp add: run_defs)
  have wa: "[0] = foldl (\<lambda>w i. snd (log_filter_set scripted w i (unat (1 :: byte))))
                    (world (reading 0 [0])) [0..<3]"
    by (simp add: run_defs upt3)
  have wr: "nvs_write scripted [0] (CFG_LOG_LEVEL sample_config) [1] 1 = (1, [])"
    by (simp add: run_defs level_defs)
  have dv: "default_value (prv_config_entries sample_config ! CFG_LOG_LEVEL sample_config) = [3]"
    by (simp add: level_defs)
  have rd: "nvs_read scripted (world (reading 0 [0])) (CFG_LOG_LEVEL sample_config) [7] 1 = (1, [0], [])"
    by (simp add: run_defs level_defs)
  have loaded: "(0 :: byte) = (if (1 :: int) = - ENOENT then 3 else 0)"
    by simp
  have ud: "False = (((1 :: int) < 0 \<and> (1 :: int) \<noteq> - ENOENT) \<or> LOG_LEVEL_DBG < uint (0 :: byte))"
    by simp
  have lvla: "(0 :: byte) = (if False then word_of_int (CONFIG_LOG_DEFAULT_LEVEL sample_config) else 0)"
    by simp
  have vb: "[] = (if False then snd (nvs_write scripted [] (CFG_LOG_LEVEL sample_config) [0 :: byte] 1)
                  else ([] :: int list))"
    by simp
  have lvlb: "(1 :: byte) = (if uint (0 :: byte) < LOG_RUNTIME_MIN_LEVEL sample_config
                             then word_of_int (LOG_RUNTIME_MIN_LEVEL sample_config) else 0)"
    by (simp add: level_defs)
  have vc: "[] = (if uint (0 :: byte) < LOG_RUNTIME_MIN_LEVEL sample_config
                  then snd (nvs_write scripted [] (CFG_LOG_LEVEL sample_config) [1 :: byte] 1)
                  else ([] :: int list))"
    by (simp add: run_defs level_defs)
  have m: "3 = log_src_cnt_get scripted ([] :: int list)"
    by (simp add: run_defs)
  have tr: "trace (reading 0 [0 :: int]) = []"
    by (simp add: run_defs)
  from log_level_clamped_to_floor [OF key lo hi cl n wa wr dv rd loaded ud lvla vb lvlb vc m]
  have run: "zmod_log_storage_set_log_level scripted sample_config (reading 0 [0]) 0
     = Some (0, (reading 0 [])
                  \<lparr>trace := [Log_src_cnt_get, Log_filter_set 0 1, Log_filter_set 1 1, Log_filter_set 2 1,
                              Nvs_write 0 [1] 1]\<rparr>) \<and>
   (\<exists>c. zmod_log_storage_init_log_level scripted sample_config (reading 0 [0]) 7
          = Some ((1, c, 3),
                  (reading 0 [])
                    \<lparr>trace := [Nvs_read 0 1, Nvs_write 0 [1] 1, Log_src_cnt_get,
                                Log_filter_set 0 1, Log_filter_set 1 1, Log_filter_set 2 1]\<rparr>))"
    by (simp add: tr key0 floor1 upt3 run_defs)
  have wr0: "nvs_write scripted [0] 0 [1] 1 = (1, [])"
    and rd0: "nvs_read scripted [0] 0 [7] 1 = (1, [0], [])"
    by (simp_all add: run_defs)
  from key lo hi below wr0 rd0 run show ?thesis
    by simp
qed

text \<open>
  C5 as stated fails. The default level is 0 and the floor 1. The read of the key fails,
  so \<^verbatim>\<open>zmod_log_storage_init_log_level\<close> writes the default 0, which the store accepts, and
  then the floor 1, which the store refuses. The function ends with level 1 applied, and
  the value persisted is 0, below the floor.
\<close>

theorem init_log_level_persists_below_floor:
  "zmod_log_storage_init_log_level scripted low_default_config (reading 0 [- EIO, 0, - EIO]) 7
     = Some ((1, 3, 3),
             (reading 0 [])
               \<lparr>trace := [Nvs_read 0 1, Nvs_write 0 [0] 1, Nvs_write 0 [1] 1, Log_src_cnt_get,
                           Log_filter_set 0 1, Log_filter_set 1 1, Log_filter_set 2 1]\<rparr>) \<and>
   uint (0 :: byte) < LOG_RUNTIME_MIN_LEVEL low_default_config \<and>
   nvs_write scripted [0, - EIO] 0 [0] 1 = (1, [- EIO]) \<and>
   nvs_write scripted [- EIO] 0 [1] 1 = (- EIO, [])"
  by (simp add: level_defs run_defs low_default_config_def upt3)

text \<open>
  C7. The key is valid and the level is within the enumeration; \<open>cl\<close> is the level raised
  to the floor. The filter of every source is set to \<open>cl\<close>, which leaves the world \<open>wa\<close>,
  and only then is the write attempted, in that world. When the write fails, the function
  returns \<open>- EIO\<close>; the world is the one the failed write leaves and the list of calls ends
  with the write: no filter is set back.
\<close>

theorem set_log_level_no_rollback:
  assumes key: "log_level_key_ok cfg" and valid: "uint level \<le> LOG_LEVEL_DBG"
    and cl: "cl = (if uint level < LOG_RUNTIME_MIN_LEVEL cfg
                   then word_of_int (LOG_RUNTIME_MIN_LEVEL cfg) else level)"
    and n: "n = log_src_cnt_get env (world s)"
    and wa: "wa = foldl (\<lambda>w i. snd (log_filter_set env w i (unat cl))) (world s) [0..<n]"
    and wr: "nvs_write env wa (CFG_LOG_LEVEL cfg) [cl] 1 = (r, wb)"
    and fail: "r < 0"
  shows "zmod_log_storage_set_log_level env cfg s level
           = Some (- EIO,
                   s\<lparr>world := wb,
                     trace := trace s @ Log_src_cnt_get #
                       map (\<lambda>i. Log_filter_set i (unat cl)) [0..<n] @
                       [Nvs_write (CFG_LOG_LEVEL cfg) [cl] 1]\<rparr>)"
proof -
  from set_log_level_result [OF key valid cl n wa wr]
  have "zmod_log_storage_set_log_level env cfg s level
          = Some (if r < 0 then - EIO else 0,
                  s\<lparr>world := wb,
                    trace := trace s @ Log_src_cnt_get #
                      map (\<lambda>i. Log_filter_set i (unat cl)) [0..<n] @
                      [Nvs_write (CFG_LOG_LEVEL cfg) [cl] 1]\<rparr>)" .
  with fail show ?thesis by simp
qed

theorem set_log_level_no_rollback_witness:
  "log_level_key_ok sample_config \<and> uint (3 :: byte) \<le> LOG_LEVEL_DBG \<and>
   \<not> uint (3 :: byte) < LOG_RUNTIME_MIN_LEVEL sample_config \<and>
   log_src_cnt_get scripted (world (reading 0 [- EIO])) = 3 \<and>
   foldl (\<lambda>w i. snd (log_filter_set scripted w i (unat (3 :: byte)))) (world (reading 0 [- EIO])) [0..<3]
     = [- EIO] \<and>
   nvs_write scripted [- EIO] 0 [3] 1 = (- EIO, []) \<and>
   zmod_log_storage_set_log_level scripted sample_config (reading 0 [- EIO]) 3
     = Some (- EIO,
             (reading 0 [])
               \<lparr>trace := [Log_src_cnt_get, Log_filter_set 0 3, Log_filter_set 1 3, Log_filter_set 2 3,
                           Nvs_write 0 [3] 1]\<rparr>)"
proof -
  have key: "log_level_key_ok sample_config"
    by (simp add: level_defs)
  have valid: "uint (3 :: byte) \<le> LOG_LEVEL_DBG"
    by simp
  have above: "\<not> uint (3 :: byte) < LOG_RUNTIME_MIN_LEVEL sample_config"
    by (simp add: level_defs)
  then have cl: "(3 :: byte) = (if uint (3 :: byte) < LOG_RUNTIME_MIN_LEVEL sample_config
                                then word_of_int (LOG_RUNTIME_MIN_LEVEL sample_config) else 3)"
    by simp
  have n: "3 = log_src_cnt_get scripted (world (reading 0 [- EIO]))"
    by (simp add: run_defs)
  have wa: "[- EIO] = foldl (\<lambda>w i. snd (log_filter_set scripted w i (unat (3 :: byte))))
                        (world (reading 0 [- EIO])) [0..<3]"
    by (simp add: run_defs upt3)
  have wr: "nvs_write scripted [- EIO] (CFG_LOG_LEVEL sample_config) [3] 1 = (- EIO, [])"
    by (simp add: run_defs level_defs)
  have fail: "- EIO < (0 :: int)"
    by simp
  have tr: "trace (reading 0 [- EIO]) = []" and rd: "(reading 0 [- EIO])\<lparr>world := []\<rparr> = reading 0 []"
    by (simp_all add: run_defs)
  have key0: "CFG_LOG_LEVEL sample_config = 0"
    by (simp add: level_defs)
  from set_log_level_no_rollback [OF key valid cl n wa wr fail]
  have run: "zmod_log_storage_set_log_level scripted sample_config (reading 0 [- EIO]) 3
     = Some (- EIO,
             (reading 0 [])
               \<lparr>trace := [Log_src_cnt_get, Log_filter_set 0 3, Log_filter_set 1 3, Log_filter_set 2 3,
                           Nvs_write 0 [3] 1]\<rparr>)"
    by (simp add: tr key0 upt3 run_defs)
  from key valid above n wa wr run show ?thesis
    by (simp add: key0)
qed

end
